theory Spec2Isabelle
  imports Main
begin

section \<open>Standard-library string functions used by the service\<close>

text \<open>Go strings are byte sequences; \<open>string\<close> is a list of 8-bit characters.\<close>

definition HasPrefix :: "string \<Rightarrow> string \<Rightarrow> bool" where
  "HasPrefix s pre = (take (length pre) s = pre)"

fun Contains :: "string \<Rightarrow> string \<Rightarrow> bool" where
  "Contains [] sub = (sub = [])"
| "Contains (c # cs) sub = (HasPrefix (c # cs) sub \<or> Contains cs sub)"

text \<open>\<open>strings.Trim(s, "/")\<close>, \<open>strings.Split(s, "/")\<close>: the cutset and the separator
  are single bytes at every call site, so they are characters here.\<close>

definition Trim :: "string \<Rightarrow> char \<Rightarrow> string" where
  "Trim s c = rev (dropWhile (\<lambda>x. x = c) (rev (dropWhile (\<lambda>x. x = c) s)))"

fun Split :: "string \<Rightarrow> char \<Rightarrow> string list" where
  "Split [] sep = [[]]"
| "Split (c # cs) sep =
     (if c = sep then [] # Split cs sep
      else (case Split cs sep of
              [] \<Rightarrow> [[c]]
            | x # xs \<Rightarrow> (c # x) # xs))"

fun Join :: "string list \<Rightarrow> string \<Rightarrow> string" where
  "Join [] sep = []"
| "Join [x] sep = x"
| "Join (x # y # ys) sep = x @ sep @ Join (y # ys) sep"

subsection \<open>\<open>path.Clean\<close>\<close>

text \<open>
  The buffer of \<open>path.Clean\<close> is the list \<open>out\<close> (its write index \<open>w\<close> is the length),
  the unread input is \<open>rest\<close>. \<open>backtrack\<close> is the inner loop of the \<open>..\<close> case:
  \<open>out.w--; for out.w > dotdot && out.index(out.w) != '/' { out.w-- }\<close>, started at the
  decremented index.
\<close>

fun backtrack :: "string \<Rightarrow> nat \<Rightarrow> nat \<Rightarrow> nat" where
  "backtrack buf dotdot 0 = 0"
| "backtrack buf dotdot (Suc w) =
     (if Suc w > dotdot \<and> buf ! (Suc w) \<noteq> CHR ''/'' then backtrack buf dotdot w else Suc w)"

definition is_dot_elem :: "string \<Rightarrow> bool" where
  "is_dot_elem rest =
     (case rest of
        c # cs \<Rightarrow> c = CHR ''.'' \<and> (case cs of [] \<Rightarrow> True | d # _ \<Rightarrow> d = CHR ''/'')
      | [] \<Rightarrow> False)"

definition is_dotdot_elem :: "string \<Rightarrow> bool" where
  "is_dotdot_elem rest =
     (case rest of
        c # d # cs \<Rightarrow>
          c = CHR ''.'' \<and> d = CHR ''.'' \<and> (case cs of [] \<Rightarrow> True | e # _ \<Rightarrow> e = CHR ''/'')
      | _ \<Rightarrow> False)"

lemma dropWhile_shorter:
  "rest \<noteq> [] \<Longrightarrow> hd rest \<noteq> c \<Longrightarrow> length (dropWhile (\<lambda>x. x \<noteq> c) rest) < length rest"
  by (cases rest) (auto intro: le_imp_less_Suc length_dropWhile_le)

lemma dotdot_elem_shorter: "is_dotdot_elem rest \<Longrightarrow> length rest - 2 < length rest"
  by (auto simp: is_dotdot_elem_def split: list.splits)

function clean_loop :: "bool \<Rightarrow> string \<Rightarrow> string \<Rightarrow> nat \<Rightarrow> string" where
  "clean_loop rooted rest out dotdot =
     (if rest = [] then out
      else if hd rest = CHR ''/'' then clean_loop rooted (tl rest) out dotdot
      else if is_dot_elem rest then clean_loop rooted (tl rest) out dotdot
      else if is_dotdot_elem rest then
        (if length out > dotdot then
           clean_loop rooted (drop 2 rest)
             (take (backtrack out dotdot (length out - 1)) out) dotdot
         else if \<not> rooted then
           (let out' = (if length out > 0 then out @ ''/'' else out) @ ''..''
            in clean_loop rooted (drop 2 rest) out' (length out'))
         else clean_loop rooted (drop 2 rest) out dotdot)
      else
        (let out' = (if (rooted \<and> length out \<noteq> 1) \<or> (\<not> rooted \<and> length out \<noteq> 0)
                     then out @ ''/'' else out)
         in clean_loop rooted (dropWhile (\<lambda>x. x \<noteq> CHR ''/'') rest)
              (out' @ takeWhile (\<lambda>x. x \<noteq> CHR ''/'') rest) dotdot))"
  by pat_completeness auto
termination
  by (relation "measure (\<lambda>(rooted, rest, out, dotdot). length rest)")
     (auto simp: dropWhile_shorter dotdot_elem_shorter)

declare clean_loop.simps [simp del]

definition Clean :: "string \<Rightarrow> string" where
  "Clean path =
     (if path = [] then ''.''
      else
        (let rooted = (hd path = CHR ''/'');
             out = clean_loop rooted (if rooted then tl path else path)
                     (if rooted then ''/'' else []) (if rooted then 1 else 0)
         in if length out = 0 then ''.'' else out))"

section \<open>Path safety\<close>

definition isValidS3Path :: "string \<Rightarrow> bool" where
  "isValidS3Path s3Path =
     (let cleanPath = Clean s3Path
      in if HasPrefix cleanPath ''/'' \<or> Contains cleanPath ''..'' then False
         else cleanPath \<noteq> [] \<and> cleanPath \<noteq> ''.'')"

section \<open>Standard-library time\<close>

text \<open>
  A \<open>time.Time\<close> is an instant (nanoseconds since the Unix epoch) together with the
  offset, in seconds east of UTC, of the location it is displayed in. A \<open>time.Duration\<close>
  is a signed 64-bit count of nanoseconds.
\<close>

record Time =
  unixNano :: int
  zoneOffset :: int

type_synonym Duration = int

definition Second :: Duration where
  "Second = 1000000000"

definition Hour :: Duration where
  "Hour = 3600 * Second"

definition After :: "Time \<Rightarrow> Time \<Rightarrow> bool" where
  "After t u = (unixNano t > unixNano u)"

text \<open>\<open>t.Sub(u)\<close> saturates at the bounds of \<open>int64\<close>.\<close>

definition Sub :: "Time \<Rightarrow> Time \<Rightarrow> Duration" where
  "Sub t u =
     (let d = unixNano t - unixNano u
      in if d > 2 ^ 63 - 1 then 2 ^ 63 - 1 else if d < - (2 ^ 63) then - (2 ^ 63) else d)"

text \<open>\<open>time.Until(t)\<close> is \<open>t.Sub(time.Now())\<close>; the clock reading is the argument \<open>now\<close>.\<close>

definition Until :: "Time \<Rightarrow> Time \<Rightarrow> Duration" where
  "Until now t = Sub t now"

definition Add :: "Time \<Rightarrow> Duration \<Rightarrow> Time" where
  "Add t d = t\<lparr>unixNano := unixNano t + d\<rparr>"

definition Unix :: "Time \<Rightarrow> int" where
  "Unix t = unixNano t div 1000000000"

text \<open>The zero \<open>Time\<close> is January 1, year 1, 00:00:00 UTC.\<close>

definition IsZero :: "Time \<Rightarrow> bool" where
  "IsZero t = (unixNano t = - 62135596800 * 1000000000)"

subsection \<open>A duration in seconds\<close>

function bit_length :: "int \<Rightarrow> nat" where
  "bit_length n = (if n \<le> 0 then 0 else Suc (bit_length (n div 2)))"
  by pat_completeness auto
termination
  by (relation "measure nat") auto

declare bit_length.simps [simp del]

text \<open>The integer nearest to \<open>a / b\<close> (for \<open>a \<ge> 0\<close>, \<open>b > 0\<close>), a tie going to the even
  one.\<close>

definition round_half_even :: "int \<Rightarrow> int \<Rightarrow> int" where
  "round_half_even a b =
     (let q = a div b; r = a mod b
      in if 2 * r < b then q else if 2 * r > b then q + 1 else if even q then q else q + 1)"

text \<open>
  The \<open>float64\<close> nearest to \<open>a / b\<close> (for \<open>a \<ge> 0\<close>, \<open>b > 0\<close>, in the normal range):
  a 53-bit significand, round to nearest, ties to even. The result is the fraction
  \<open>(n, d)\<close> with \<open>d\<close> a power of two.
\<close>

definition float64_of :: "int \<Rightarrow> int \<Rightarrow> int \<times> int" where
  "float64_of a b =
     (if a = 0 then (0, 1)
      else
        (let k = int (bit_length a) - int (bit_length b);
             fl = (if (if k \<ge> 0 then a \<ge> b * 2 ^ nat k else a * 2 ^ nat (- k) \<ge> b)
                   then k else k - 1);
             e = fl - 52
         in if e \<ge> 0 then (round_half_even a (b * 2 ^ nat e) * 2 ^ nat e, 1)
            else (round_half_even (a * 2 ^ nat (- e)) b, 2 ^ nat (- e))))"

text \<open>
  \<open>int(d.Seconds())\<close>: \<open>Seconds\<close> is \<open>float64(d / Second) + float64(d % Second) / 1e9\<close>,
  two rounded \<open>float64\<close> operations, and the conversion to \<open>int\<close> truncates.
\<close>

definition Seconds_trunc :: "Duration \<Rightarrow> int" where
  "Seconds_trunc d =
     (let a = \<bar>d\<bar>;
          sec = a div 1000000000;
          nsec = a mod 1000000000;
          q = float64_of nsec 1000000000;
          r = float64_of (sec * snd q + fst q) (snd q);
          t = fst r div snd r
      in if d < 0 then - t else t)"

subsection \<open>The proleptic Gregorian calendar\<close>

record Date =
  year :: int
  month :: int
  day :: int

definition civil_from_days :: "int \<Rightarrow> Date" where
  "civil_from_days z =
     (let z' = z + 719468;
          era = z' div 146097;
          doe = z' mod 146097;
          yoe = (doe - doe div 1460 + doe div 36524 - doe div 146096) div 365;
          y = yoe + era * 400;
          doy = doe - (365 * yoe + yoe div 4 - yoe div 100);
          mp = (5 * doy + 2) div 153;
          d = doy - (153 * mp + 2) div 5 + 1;
          m = (if mp < 10 then mp + 3 else mp - 9)
      in \<lparr>year = (if m \<le> 2 then y + 1 else y), month = m, day = d\<rparr>)"

definition days_from_civil :: "Date \<Rightarrow> int" where
  "days_from_civil dt =
     (let y = (if month dt \<le> 2 then year dt - 1 else year dt);
          era = y div 400;
          yoe = y mod 400;
          mp = (if month dt > 2 then month dt - 3 else month dt + 9);
          doy = (153 * mp + 2) div 5 + day dt - 1;
          doe = yoe * 365 + yoe div 4 - yoe div 100 + doy
      in era * 146097 + doe - 719468)"

definition isLeap :: "int \<Rightarrow> bool" where
  "isLeap y = (y mod 4 = 0 \<and> (y mod 100 \<noteq> 0 \<or> y mod 400 = 0))"

definition daysIn :: "int \<Rightarrow> int \<Rightarrow> int" where
  "daysIn m y =
     (if m = 2 then (if isLeap y then 29 else 28)
      else if m = 4 \<or> m = 6 \<or> m = 9 \<or> m = 11 then 30 else 31)"

text \<open>The calendar date of a \<open>Time\<close> in its own location.\<close>

definition date_of :: "Time \<Rightarrow> Date" where
  "date_of t = civil_from_days ((Unix t + zoneOffset t) div 86400)"

subsection \<open>Formatting and parsing with the layouts of the service\<close>

definition digit_char :: "nat \<Rightarrow> char" where
  "digit_char n = ''0123456789abcdef'' ! (n mod 16)"

text \<open>A number in \<open>0..99\<close> zero-padded to two digits.\<close>

definition pad2 :: "int \<Rightarrow> string" where
  "pad2 n = [digit_char (nat (n div 10) mod 10), digit_char (nat n mod 10)]"

text \<open>\<open>t.Format("06/01/02")\<close>: two-digit year (of the absolute value of the year),
  month and day.\<close>

definition Format_YY_MM_DD :: "Time \<Rightarrow> string" where
  "Format_YY_MM_DD t =
     (let dt = date_of t
      in pad2 (\<bar>year dt\<bar> mod 100) @ ''/'' @ pad2 (month dt) @ ''/'' @ pad2 (day dt))"

text \<open>The three segments of that date.\<close>

definition date_segments :: "Time \<Rightarrow> string list" where
  "date_segments t =
     (let dt = date_of t
      in [pad2 (\<bar>year dt\<bar> mod 100), pad2 (month dt), pad2 (day dt)])"

definition isDigit :: "char \<Rightarrow> bool" where
  "isDigit c = (48 \<le> (of_char c :: nat) \<and> (of_char c :: nat) \<le> 57)"

definition digit_val :: "char \<Rightarrow> int" where
  "digit_val c = int (of_char c :: nat) - 48"


section \<open>Domain types and errors\<close>

text \<open>
  The five sentinel errors of the domain package, compared by identity in the source;
  \<open>ErrorString\<close> is any other plain error (\<open>fmt.Errorf\<close> without \<open>%w\<close>, a
  \<open>time.ParseError\<close>, an error of a backend client); \<open>Errorf msg cause\<close> is
  \<open>fmt.Errorf(msg + ": %w", cause)\<close>, a new error that wraps its cause.
\<close>

datatype error =
  ErrNotFound
| ErrUnauthorized
| ErrExpired
| ErrInvalidPath
| ErrInvalidDate
| ErrorString string
| Errorf string error

subsection \<open>Parsing a date\<close>

definition decimal :: "string \<Rightarrow> int" where
  "decimal s = foldl (\<lambda>x c. x * 10 + digit_val c) 0 s"

text \<open>\<open>atoi\<close> of the time package: an optional sign, then digits only.\<close>

definition atoi :: "string \<Rightarrow> int option" where
  "atoi s =
     (let signed = (s \<noteq> [] \<and> (hd s = CHR ''-'' \<or> hd s = CHR ''+''));
          neg = (s \<noteq> [] \<and> hd s = CHR ''-'');
          s' = (if signed then tl s else s)
      in if list_all isDigit s' then Some (if neg then - decimal s' else decimal s')
         else None)"

text \<open>\<open>getnum(s, true)\<close>: exactly two digits.\<close>

definition getnum_fixed :: "string \<Rightarrow> (int \<times> string) option" where
  "getnum_fixed s =
     (case s of
        c # d # rest \<Rightarrow>
          if isDigit c \<and> isDigit d then Some (digit_val c * 10 + digit_val d, rest) else None
      | _ \<Rightarrow> None)"

text \<open>\<open>skip(value, "-")\<close>: the literal of the layout between two fields.\<close>

definition skip_dash :: "string \<Rightarrow> string option" where
  "skip_dash s = (case s of c # rest \<Rightarrow> if c = CHR ''-'' then Some rest else None | [] \<Rightarrow> None)"

definition midnight_UTC :: "int \<Rightarrow> int \<Rightarrow> int \<Rightarrow> Time" where
  "midnight_UTC y m d =
     \<lparr>unixNano = days_from_civil \<lparr>year = y, month = m, day = d\<rparr> * 86400 * 1000000000,
      zoneOffset = 0\<rparr>"

text \<open>\<open>time.Parse("06-01-02", value)\<close>: a two-digit year (69..99 in the 1900s, the
  rest in the 2000s), a two-digit month and a two-digit day, nothing after them; the
  result is midnight UTC of that day.\<close>

definition Parse_YY_MM_DD :: "string \<Rightarrow> error + Time" where
  "Parse_YY_MM_DD v =
     (if length v < 2 then Inl (ErrorString ''parsing time: cannot parse year'')
      else case atoi (take 2 v) of
        None \<Rightarrow> Inl (ErrorString ''parsing time: cannot parse year'')
      | Some y \<Rightarrow>
         (let yr = (if y \<ge> 69 then y + 1900 else y + 2000)
          in case skip_dash (drop 2 v) of
            None \<Rightarrow> Inl (ErrorString ''parsing time: cannot parse separator'')
          | Some v1 \<Rightarrow>
             (case getnum_fixed v1 of
                None \<Rightarrow> Inl (ErrorString ''parsing time: cannot parse month'')
              | Some (m, v2) \<Rightarrow>
                  if m \<le> 0 \<or> 12 < m then Inl (ErrorString ''parsing time: month out of range'')
                  else
                   (case skip_dash v2 of
                      None \<Rightarrow> Inl (ErrorString ''parsing time: cannot parse separator'')
                    | Some v3 \<Rightarrow>
                       (case getnum_fixed v3 of
                          None \<Rightarrow> Inl (ErrorString ''parsing time: cannot parse day'')
                        | Some (d, v4) \<Rightarrow>
                            if v4 \<noteq> [] then Inl (ErrorString ''parsing time: extra text'')
                            else if d < 1 \<or> d > daysIn m yr
                            then Inl (ErrorString ''parsing time: day out of range'')
                            else Inr (midnight_UTC yr m d))))))"

subsection \<open>Requests, responses and the two adapters\<close>

record ShareRequest =
  req_S3Path :: string
  req_Secret :: string
  req_ExpiresAt :: Time

record ShareResponse =
  resp_URL :: string
  resp_ExpiresAt :: Time
  resp_MaxAge :: Duration

record ObjectMetadata =
  md_ContentType :: string
  md_Size :: int
  md_LastModified :: Time

text \<open>
  What the successive calls of \<open>Read\<close> on an \<open>ObjectReader\<close> deliver: some bytes and
  then the end of the file, some bytes and then an error, or no byte and no end at all.
\<close>

datatype Stream =
  EndOfFile string
| ReadError string error
| NoProgress

record ObjectReader =
  rd_Stream :: Stream
  rd_ContentType :: string
  rd_Size :: int

text \<open>
  The adapters are interfaces: any implementation, acting on a backend state \<open>'w\<close> that
  each call may read and change. Every call the service makes is also recorded by name
  and arguments.
\<close>

record 'w StorageService =
  storage_GetObject :: "string \<Rightarrow> 'w \<Rightarrow> (error + ObjectReader) \<times> 'w"
  storage_HeadObject :: "string \<Rightarrow> 'w \<Rightarrow> (error + ObjectMetadata) \<times> 'w"

record 'w CacheService =
  cache_Set :: "string \<Rightarrow> string \<Rightarrow> Duration \<Rightarrow> 'w \<Rightarrow> error option \<times> 'w"
  cache_Get :: "string \<Rightarrow> 'w \<Rightarrow> (error + string) \<times> 'w"
  cache_Delete :: "string \<Rightarrow> 'w \<Rightarrow> error option \<times> 'w"

datatype call =
  CallGetObject string
| CallHeadObject string
| CallSet string string Duration
| CallGet string
| CallDelete string

record ShareConfig =
  MaxAgeDays :: int
  BaseURL :: string

record 'w ShareService =
  storage :: "'w StorageService"
  cache :: "'w CacheService"
  config :: ShareConfig

section \<open>The share service\<close>

text \<open>The hexadecimal digits of a non-negative number.\<close>

function hex_digits :: "int \<Rightarrow> string" where
  "hex_digits n =
     (if n < 16 then [digit_char (nat n)]
      else hex_digits (n div 16) @ [digit_char (nat (n mod 16))])"
  by pat_completeness auto
termination
  by (relation "measure nat") auto

declare hex_digits.simps [simp del]

text \<open>\<open>strconv.FormatInt(n, 10)\<close>.\<close>

function dec_digits :: "int \<Rightarrow> string" where
  "dec_digits n =
     (if n < 10 then [digit_char (nat n)]
      else dec_digits (n div 10) @ [digit_char (nat (n mod 10))])"
  by pat_completeness auto
termination
  by (relation "measure nat") auto

declare dec_digits.simps [simp del]

definition show_int :: "int \<Rightarrow> string" where
  "show_int n = (if n < 0 then ''-'' @ dec_digits (- n) else dec_digits n)"

text \<open>The verb \<open>%x\<close> on an \<open>int\<close>: lower-case hexadecimal, a minus sign before a negative.\<close>

definition sprintf_x :: "int \<Rightarrow> string" where
  "sprintf_x n = (if n < 0 then ''-'' @ hex_digits (- n) else hex_digits n)"

text \<open>Addition on the 64-bit \<open>int\<close> wraps around.\<close>

definition wrap64 :: "int \<Rightarrow> int" where
  "wrap64 n = (n + 2 ^ 63) mod 2 ^ 64 - 2 ^ 63"

definition generateCacheKey :: "string \<Rightarrow> string" where
  "generateCacheKey s3Path = ''image-auth:'' @ s3Path"

definition generateSecret :: "string \<Rightarrow> Time \<Rightarrow> string" where
  "generateSecret s3Path expiresAt =
     ''secret_'' @ sprintf_x (wrap64 (int (length s3Path) + wrap64 (Unix expiresAt)))"

definition generateShareURL :: "'w ShareService \<Rightarrow> string \<Rightarrow> Time \<Rightarrow> string" where
  "generateShareURL s s3Path expiresAt =
     (let dateStr = Format_YY_MM_DD expiresAt;
          secret = generateSecret s3Path expiresAt
      in BaseURL (config s) @ ''/'' @ dateStr @ ''/'' @ secret @ ''/'' @ s3Path)"

text \<open>
  Each operation takes the backend state and returns its result, the new backend state
  and the adapter calls it made, in order. \<open>now\<close> is the reading of the clock at
  \<open>time.Until\<close>.
\<close>

definition CreateShare ::
  "'w ShareService \<Rightarrow> Time \<Rightarrow> ShareRequest \<Rightarrow> 'w \<Rightarrow> (error + ShareResponse) \<times> 'w \<times> call list" where
  "CreateShare s now req w =
     (if \<not> isValidS3Path (req_S3Path req) then (Inl ErrInvalidPath, w, [])
      else case storage_HeadObject (storage s) (req_S3Path req) w of
        (Inl err, w1) \<Rightarrow>
          (Inl (Errorf ''object not found'' err), w1, [CallHeadObject (req_S3Path req)])
      | (Inr md, w1) \<Rightarrow>
         (let cacheKey = generateCacheKey (req_S3Path req);
              expiration = Until now (req_ExpiresAt req)
          in if expiration \<le> 0
             then (Inl (ErrorString ''expiration time must be in the future''), w1,
                   [CallHeadObject (req_S3Path req)])
             else case cache_Set (cache s) cacheKey (req_Secret req) expiration w1 of
               (Some err, w2) \<Rightarrow>
                 (Inl (Errorf ''failed to store share in cache'' err), w2,
                  [CallHeadObject (req_S3Path req),
                   CallSet cacheKey (req_Secret req) expiration])
             | (None, w2) \<Rightarrow>
                 (Inr \<lparr>resp_URL = generateShareURL s (req_S3Path req) (req_ExpiresAt req),
                       resp_ExpiresAt = req_ExpiresAt req,
                       resp_MaxAge = expiration\<rparr>, w2,
                  [CallHeadObject (req_S3Path req),
                   CallSet cacheKey (req_Secret req) expiration])))"

definition ValidateShare ::
  "'w ShareService \<Rightarrow> string \<Rightarrow> string \<Rightarrow> 'w \<Rightarrow> error option \<times> 'w \<times> call list" where
  "ValidateShare s s3Path secret w =
     (if \<not> isValidS3Path s3Path then (Some ErrInvalidPath, w, [])
      else
        (let cacheKey = generateCacheKey s3Path
         in case cache_Get (cache s) cacheKey w of
           (Inl err, w1) \<Rightarrow>
             if err = ErrNotFound then (Some ErrUnauthorized, w1, [CallGet cacheKey])
             else (Some (Errorf ''failed to validate share'' err), w1, [CallGet cacheKey])
         | (Inr cachedSecret, w1) \<Rightarrow>
             if cachedSecret \<noteq> secret then (Some ErrUnauthorized, w1, [CallGet cacheKey])
             else (None, w1, [CallGet cacheKey])))"

definition GetObject ::
  "'w ShareService \<Rightarrow> string \<Rightarrow> 'w \<Rightarrow> (error + ObjectReader) \<times> 'w \<times> call list" where
  "GetObject s s3Path w =
     (if \<not> isValidS3Path s3Path then (Inl ErrInvalidPath, w, [])
      else case storage_GetObject (storage s) s3Path w of
        (Inl err, w1) \<Rightarrow> (Inl (Errorf ''failed to get object'' err), w1, [CallGetObject s3Path])
      | (Inr reader, w1) \<Rightarrow> (Inr reader, w1, [CallGetObject s3Path]))"


section \<open>The HTTP handlers\<close>

record ErrorResponse =
  err_Error :: string
  err_Code :: int
  err_Message :: string

text \<open>The body of a successful creation; \<open>csr_MaxAge\<close> is in seconds.\<close>

record CreateShareResponse =
  csr_URL :: string
  csr_ExpiresAt :: Time
  csr_MaxAge :: int

text \<open>
  \<open>Bytes\<close> is an object copied to its end; \<open>Truncated\<close> the bytes written before the
  copy stopped at a read error; \<open>Unending\<close> a copy that writes nothing and never ends, so
  that the handler does not return.
\<close>

datatype Body =
  JSONError ErrorResponse
| JSONShare CreateShareResponse
| Text string
| Bytes string
| Truncated string
| Unending

record Response =
  status :: int
  headers :: "(string \<times> string) list"
  body :: Body

definition writeError :: "string \<Rightarrow> int \<Rightarrow> Response" where
  "writeError message statusCode =
     \<lparr>status = statusCode,
      headers = [(''Content-Type'', ''application/json'')],
      body = JSONError \<lparr>err_Error = message, err_Code = statusCode, err_Message = message\<rparr>\<rparr>"

text \<open>\<open>http.NotFound\<close> of the standard library: a plain-text 404.\<close>

definition NotFound :: Response where
  "NotFound =
     \<lparr>status = 404,
      headers = [(''Content-Type'', ''text/plain; charset=utf-8''),
                 (''X-Content-Type-Options'', ''nosniff'')],
      body = Text (''404 page not found'' @ [CHR 0x0A])\<rparr>"

definition parseDate :: "string \<Rightarrow> error + Time" where
  "parseDate dateStr = Parse_YY_MM_DD dateStr"

text \<open>
  The splitting of the URL path in \<open>HandleImage\<close>: the date string, the secret and the
  object path, or nothing when there are fewer than five parts.
\<close>

definition parseSharePath :: "string \<Rightarrow> (string \<times> string \<times> string) option" where
  "parseSharePath urlPath =
     (let path = Trim urlPath CHR ''/'';
          parts = Split path CHR ''/''
      in if length parts < 5 then None
         else Some (Join (take 3 parts) ''-'', parts ! 3, Join (drop 4 parts) ''/''))"

text \<open>The part of \<open>HandleImage\<close> after the expiry check: validation, then retrieval.\<close>

definition serveShare ::
  "'w ShareService \<Rightarrow> string \<Rightarrow> string \<Rightarrow> 'w \<Rightarrow> Response \<times> 'w \<times> call list" where
  "serveShare h s3Path secret w =
     (case ValidateShare h s3Path secret w of
        (Some err, w1, c1) \<Rightarrow>
          (if err = ErrUnauthorized then writeError ''unauthorized'' 401
           else if err = ErrInvalidPath then writeError ''invalid path'' 400
           else writeError ''internal error'' 500, w1, c1)
      | (None, w1, c1) \<Rightarrow>
          (case GetObject h s3Path w1 of
             (Inl err, w2, c2) \<Rightarrow> (writeError ''not found'' 404, w2, c1 @ c2)
           | (Inr reader, w2, c2) \<Rightarrow>
               (\<lparr>status = 200,
                 headers = [(''Content-Type'', rd_ContentType reader),
                            (''Content-Length'', show_int (rd_Size reader)),
                            (''Cache-Control'', ''public, max-age=3600'')],
                 body = (case rd_Stream reader of
                           EndOfFile bytes \<Rightarrow> Bytes bytes
                         | ReadError bytes e \<Rightarrow> Truncated bytes
                         | NoProgress \<Rightarrow> Unending)\<rparr>, w2, c1 @ c2)))"

text \<open>\<open>now\<close> is the reading of the clock at the expiry check.\<close>

definition HandleImage ::
  "'w ShareService \<Rightarrow> Time \<Rightarrow> string \<Rightarrow> 'w \<Rightarrow> Response \<times> 'w \<times> call list" where
  "HandleImage h now urlPath w =
     (if HasPrefix urlPath ''/api/'' \<or> urlPath = ''/health'' \<or> urlPath = ''/ready''
      then (NotFound, w, [])
      else case parseSharePath urlPath of
        None \<Rightarrow> (NotFound, w, [])
      | Some (dateStr, secret, s3Path) \<Rightarrow>
         (case parseDate dateStr of
            Inl err \<Rightarrow> (writeError ''invalid date format'' 400, w, [])
          | Inr expiresAt \<Rightarrow>
              if After now expiresAt then (writeError ''link expired'' 403, w, [])
              else serveShare h s3Path secret w))"

text \<open>The decoded body of \<open>POST /api/shares\<close>; a field absent from the JSON has its
  zero value.\<close>

record CreateShareRequest =
  csq_S3Path :: string
  csq_Secret :: string
  csq_ExpiresAt :: Time

text \<open>
  \<open>decoded\<close> is the result of decoding the request body, \<open>None\<close> when decoding fails;
  \<open>now\<close> is the reading of the clock in the handler, \<open>now'\<close> the later one in the
  service.
\<close>

definition HandleCreateShare ::
  "'w ShareService \<Rightarrow> Time \<Rightarrow> Time \<Rightarrow> string \<Rightarrow> CreateShareRequest option \<Rightarrow> 'w
     \<Rightarrow> Response \<times> 'w \<times> call list" where
  "HandleCreateShare h now now' method decoded w =
     (if method \<noteq> ''POST'' then (writeError ''method not allowed'' 405, w, [])
      else case decoded of
        None \<Rightarrow> (writeError ''invalid request body'' 400, w, [])
      | Some req \<Rightarrow>
          if csq_S3Path req = [] then (writeError ''s3_path is required'' 400, w, [])
          else if csq_Secret req = [] then (writeError ''secret is required'' 400, w, [])
          else
           (let expiresAt = (if IsZero (csq_ExpiresAt req) then Add now (24 * Hour)
                             else csq_ExpiresAt req);
                shareReq = \<lparr>req_S3Path = csq_S3Path req, req_Secret = csq_Secret req,
                            req_ExpiresAt = expiresAt\<rparr>
            in case CreateShare h now' shareReq w of
              (Inl err, w1, c1) \<Rightarrow> (writeError ''failed to create share'' 500, w1, c1)
            | (Inr resp, w1, c1) \<Rightarrow>
                (\<lparr>status = 200,
                  headers = [(''Content-Type'', ''application/json'')],
                  body = JSONShare \<lparr>csr_URL = resp_URL resp,
                                     csr_ExpiresAt = resp_ExpiresAt resp,
                                     csr_MaxAge = Seconds_trunc (resp_MaxAge resp)\<rparr>\<rparr>,
                 w1, c1)))"

section \<open>The in-memory adapters of the service's tests\<close>

record mock_world =
  objects :: "string \<rightharpoonup> ObjectMetadata"
  store :: "string \<rightharpoonup> string"

text \<open>The reader of the tests: every \<open>Read\<close> returns no byte and no error.\<close>

definition mockObjectReader :: ObjectReader where
  "mockObjectReader =
     \<lparr>rd_Stream = NoProgress, rd_ContentType = ''image/jpeg'', rd_Size = 1024\<rparr>"

definition mockStorageService :: "mock_world StorageService" where
  "mockStorageService =
     \<lparr>storage_GetObject = (\<lambda>key w.
        (case objects w key of None \<Rightarrow> Inl ErrNotFound | Some md \<Rightarrow> Inr mockObjectReader, w)),
      storage_HeadObject = (\<lambda>key w.
        (case objects w key of None \<Rightarrow> Inl ErrNotFound | Some md \<Rightarrow> Inr md, w))\<rparr>"

definition mockCacheService :: "mock_world CacheService" where
  "mockCacheService =
     \<lparr>cache_Set = (\<lambda>key v expiration w. (None, w\<lparr>store := (store w)(key \<mapsto> v)\<rparr>)),
      cache_Get = (\<lambda>key w.
        (case store w key of None \<Rightarrow> Inl ErrNotFound | Some v \<Rightarrow> Inr v, w)),
      cache_Delete = (\<lambda>key w. (None, w\<lparr>store := (store w)(key := None)\<rparr>))\<rparr>"

definition mockService :: "mock_world ShareService" where
  "mockService =
     \<lparr>storage = mockStorageService, cache = mockCacheService,
      config = \<lparr>MaxAgeDays = 90, BaseURL = ''https://example.com''\<rparr>\<rparr>"

subsection \<open>A sample backend\<close>

definition photo_md :: ObjectMetadata where
  "photo_md = \<lparr>md_ContentType = ''image/jpeg'', md_Size = 1024,
     md_LastModified = \<lparr>unixNano = 0, zoneOffset = 0\<rparr>\<rparr>"

text \<open>One stored object, no share yet; the clock reads 2025-11-01 12:26:40 UTC.\<close>

definition sample_world :: mock_world where
  "sample_world = \<lparr>objects = [''images/photo.jpg'' \<mapsto> photo_md], store = Map.empty\<rparr>"

definition sample_now :: Time where
  "sample_now = \<lparr>unixNano = 1762000000 * 1000000000, zoneOffset = 0\<rparr>"

text \<open>The same backend after a share of the object with the secret \<open>abc123\<close>.\<close>

definition shared_world :: mock_world where
  "shared_world = sample_world\<lparr>store := [''image-auth:images/photo.jpg'' \<mapsto> ''abc123'']\<rparr>"

text \<open>A storage adapter whose backend is unreachable: every call fails with the
  wrapped error of the client, as \<open>S3Service\<close> reports it.\<close>

definition failingStorageService :: "mock_world StorageService" where
  "failingStorageService =
     \<lparr>storage_GetObject = (\<lambda>key w.
        (Inl (Errorf ''failed to get object from S3'' (ErrorString ''connection reset'')), w)),
      storage_HeadObject = (\<lambda>key w.
        (Inl (Errorf ''failed to head object from S3'' (ErrorString ''connection reset'')), w))\<rparr>"

text \<open>A cache adapter whose backend is unreachable, with the wrapped errors of
  \<open>RedisService\<close>.\<close>

definition failingCacheService :: "mock_world CacheService" where
  "failingCacheService =
     \<lparr>cache_Set = (\<lambda>key v expiration w.
        (Some (Errorf ''failed to set key in Redis'' (ErrorString ''connection refused'')), w)),
      cache_Get = (\<lambda>key w.
        (Inl (Errorf ''failed to get key from Redis'' (ErrorString ''connection refused'')), w)),
      cache_Delete = (\<lambda>key w.
        (Some (Errorf ''failed to delete key from Redis'' (ErrorString ''connection refused'')),
         w))\<rparr>"

text \<open>A backend whose only object has a key that ends with the separator.\<close>

definition folder_world :: mock_world where
  "folder_world = \<lparr>objects = [''images/'' \<mapsto> photo_md], store = Map.empty\<rparr>"

text \<open>An expiry one day after the sample clock reading.\<close>

definition sample_expiry :: Time where
  "sample_expiry = Add sample_now (24 * Hour)"

text \<open>The sample backend after one share of the object with the secret \<open>s1\<close>, and after
  a second share of the same object with the secret \<open>s2\<close>.\<close>

definition first_shared :: mock_world where
  "first_shared =
     fst (snd (CreateShare mockService sample_now
       \<lparr>req_S3Path = ''images/photo.jpg'', req_Secret = ''s1'', req_ExpiresAt = sample_expiry\<rparr>
       sample_world))"

definition second_shared :: mock_world where
  "second_shared =
     fst (snd (CreateShare mockService sample_now
       \<lparr>req_S3Path = ''images/photo.jpg'', req_Secret = ''s2'', req_ExpiresAt = sample_expiry\<rparr>
       first_shared))"

text \<open>A backend with objects under two spellings of one canonical path, each shared
  once: \<open>a//b\<close> with the secret \<open>s1\<close>, then \<open>a/b\<close> with the secret \<open>s2\<close>.\<close>

definition twin_world :: mock_world where
  "twin_world =
     \<lparr>objects = [''a//b'' \<mapsto> photo_md, ''a/b'' \<mapsto> photo_md], store = Map.empty\<rparr>"

definition twin_shared :: mock_world where
  "twin_shared =
     fst (snd (CreateShare mockService sample_now
       \<lparr>req_S3Path = ''a/b'', req_Secret = ''s2'', req_ExpiresAt = sample_expiry\<rparr>
       (fst (snd (CreateShare mockService sample_now
          \<lparr>req_S3Path = ''a//b'', req_Secret = ''s1'', req_ExpiresAt = sample_expiry\<rparr>
          twin_world)))))"

subsection \<open>Facts about the samples\<close>

text \<open>The paths of the samples, and the request
  \<open>GET /25/11/02/abc123/images/photo.jpg\<close>.\<close>

lemma photo_path_valid: "isValidS3Path ''images/photo.jpg''"
  by code_simp

lemma other_path_valid: "isValidS3Path ''images/other.jpg''"
  by code_simp

lemma passwd_path_invalid: "\<not> isValidS3Path ''../etc/passwd''"
  by code_simp

lemma photo_url_route:
  "\<not> HasPrefix ''/25/11/02/abc123/images/photo.jpg'' ''/api/'' \<and>
   ''/25/11/02/abc123/images/photo.jpg'' \<noteq> ''/health'' \<and>
   ''/25/11/02/abc123/images/photo.jpg'' \<noteq> ''/ready''"
  by code_simp

lemma photo_url_parts:
  "parseSharePath ''/25/11/02/abc123/images/photo.jpg''
     = Some (''25-11-02'', ''abc123'', ''images/photo.jpg'')"
  by code_simp

lemma photo_url_date:
  "parseDate ''25-11-02'' = Inr \<lparr>unixNano = 1762041600000000000, zoneOffset = 0\<rparr>"
  by code_simp

lemma shared_world_Get:
  "cache_Get (cache mockService) (generateCacheKey ''images/photo.jpg'') shared_world
     = (Inr ''abc123'', shared_world)"
  "cache_Get (cache mockService) (generateCacheKey ''images/other.jpg'') shared_world
     = (Inl ErrNotFound, shared_world)"
  by (simp_all add: mockService_def mockCacheService_def shared_world_def sample_world_def
      generateCacheKey_def)

lemma mock_cache_contract:
  "\<forall>k v d w w'. cache_Set (cache mockService) k v d w = (None, w') \<longrightarrow>
     fst (cache_Get (cache mockService) k w') = Inr v"
  by (auto simp: mockService_def mockCacheService_def)

lemma result_triple:
  "\<not> isl (fst x) \<Longrightarrow> \<exists>r. x = (Inr r, fst (snd x), snd (snd x))"
  by (cases x; cases "fst x") auto

lemma twin_spellings:
  "isValidS3Path ''a//b'' \<and> isValidS3Path ''a/b'' \<and> Clean ''a//b'' = Clean ''a/b'' \<and>
   generateCacheKey ''a//b'' \<noteq> generateCacheKey ''a/b'' \<and>
   isValidS3Path ''./a'' \<and> isValidS3Path ''a'' \<and> Clean ''./a'' = Clean ''a'' \<and>
   generateCacheKey ''./a'' \<noteq> generateCacheKey ''a''"
  by code_simp

lemma twin_secrets:
  "fst (ValidateShare mockService ''a//b'' ''s1'' twin_shared) = None \<and>
   fst (ValidateShare mockService ''a/b'' ''s2'' twin_shared) = None \<and>
   fst (ValidateShare mockService ''a//b'' ''s2'' twin_shared) = Some ErrUnauthorized \<and>
   fst (ValidateShare mockService ''a/b'' ''s1'' twin_shared) = Some ErrUnauthorized"
  by code_simp

section \<open>Creating a share: success and the returned URL\<close>

lemma Format_segments: "Format_YY_MM_DD t = Join (date_segments t) ''/''"
  by (simp add: Format_YY_MM_DD_def date_segments_def Let_def)

lemma digit_char_not_slash: "digit_char n \<noteq> CHR ''/''"
proof -
  have "n mod 16 < length ''0123456789abcdef''"
    by simp
  then have "digit_char n \<in> set ''0123456789abcdef''"
    unfolding digit_char_def by (rule nth_mem)
  then show ?thesis
    by auto
qed

lemma pad2_no_slash: "CHR ''/'' \<notin> set (pad2 n)"
  by (simp add: pad2_def digit_char_not_slash digit_char_not_slash [THEN not_sym])

lemma hex_digits_no_slash: "CHR ''/'' \<notin> set (hex_digits n)"
proof (induction n rule: hex_digits.induct)
  case (1 n)
  then show ?case
    by (subst hex_digits.simps)
       (simp add: digit_char_not_slash digit_char_not_slash [THEN not_sym])
qed

lemma generateSecret_no_slash: "CHR ''/'' \<notin> set (generateSecret p e)"
  using hex_digits_no_slash by (auto simp: generateSecret_def sprintf_x_def)

lemma Split_nonempty: "Split s sep \<noteq> []"
  by (induction s) (auto split: list.splits)

lemma Split_append: "sep \<notin> set a \<Longrightarrow> Split (a @ sep # b) sep = a # Split b sep"
  by (induction a) auto

lemma Join_Split: "Join (Split s sep) [sep] = s"
proof (induction s)
  case Nil
  then show ?case by simp
next
  case (Cons c cs)
  show ?case
  proof (cases "c = sep")
    case True
    with Cons Split_nonempty [of cs sep] show ?thesis
      by (cases "Split cs sep") auto
  next
    case False
    with Cons Split_nonempty [of cs sep] show ?thesis
      by (cases "Split cs sep"; cases "tl (Split cs sep)") auto
  qed
qed

lemma Trim_leading:
  assumes "s \<noteq> []" "hd s \<noteq> c" "last s \<noteq> c"
  shows "Trim (c # s) c = s"
proof -
  from assms have front: "dropWhile (\<lambda>x. x = c) (c # s) = s"
    by (cases s) auto
  from assms have "hd (rev s) \<noteq> c" "rev s \<noteq> []"
    by (simp_all add: hd_rev)
  then have "dropWhile (\<lambda>x. x = c) (rev s) = rev s"
    by (cases "rev s") auto
  with front show ?thesis
    by (simp add: Trim_def)
qed

lemma Sub_positive: "(0 < Sub t u) = (unixNano u < unixNano t)"
  by (auto simp: Sub_def Let_def)

lemma empty_path_invalid: "\<not> isValidS3Path []"
  by (simp add: isValidS3Path_def Clean_def HasPrefix_def)

lemma valid_path_nonempty: "isValidS3Path p \<Longrightarrow> p \<noteq> []"
  using empty_path_invalid by auto

lemma share_path_parts:
  assumes "p \<noteq> []" "last p \<noteq> CHR ''/''"
    and "CHR ''/'' \<notin> set yy" "CHR ''/'' \<notin> set mm" "CHR ''/'' \<notin> set dd" "CHR ''/'' \<notin> set sec"
    and "yy \<noteq> []"
  shows "parseSharePath (''/'' @ yy @ ''/'' @ mm @ ''/'' @ dd @ ''/'' @ sec @ ''/'' @ p)
           = Some (yy @ ''-'' @ mm @ ''-'' @ dd, sec, p)"
proof -
  let ?s = "yy @ CHR ''/'' # mm @ CHR ''/'' # dd @ CHR ''/'' # sec @ CHR ''/'' # p"
  from assms have "hd ?s \<noteq> CHR ''/''"
    by (cases yy) auto
  moreover from assms have "last ?s \<noteq> CHR ''/''"
    by simp
  ultimately have trim: "Trim (CHR ''/'' # ?s) CHR ''/'' = ?s"
    by (intro Trim_leading) simp_all
  from assms have parts: "Split ?s CHR ''/'' = yy # mm # dd # sec # Split p CHR ''/''"
    by (simp add: Split_append)
  obtain x xs where sp: "Split p CHR ''/'' = x # xs"
    using Split_nonempty [of p "CHR ''/''"] by (cases "Split p CHR ''/''") auto
  have "Join (Split p CHR ''/'') ''/'' = p"
    by (rule Join_Split)
  with trim parts sp show ?thesis
    by (simp add: parseSharePath_def Let_def)
qed

text \<open>
  C1, as stated, fails in three ways. With the in-memory adapters, the object
  \<open>images/photo.jpg\<close>, the secret \<open>abc123\<close> and an expiry a day ahead, the call
  succeeds, but the secret segment of the returned URL is the generated
  \<open>secret_69074e10\<close>, not \<open>abc123\<close>. For the safe path \<open>images/\<close> the call succeeds
  and the URL parses back to the path \<open>images\<close>. With the object present and the expiry
  in the future, the call fails when the cache write fails.
\<close>

theorem CreateShare_url_counterexample:
  "fst (CreateShare mockService sample_now
       \<lparr>req_S3Path = ''images/photo.jpg'', req_Secret = ''abc123'', req_ExpiresAt = sample_expiry\<rparr>
       sample_world)
     = Inr \<lparr>resp_URL = ''https://example.com/25/11/02/secret_69074e10/images/photo.jpg'',
            resp_ExpiresAt = sample_expiry, resp_MaxAge = 24 * Hour\<rparr> \<and>
   parseSharePath (drop (length (BaseURL (config mockService)))
       ''https://example.com/25/11/02/secret_69074e10/images/photo.jpg'')
     = Some (''25-11-02'', ''secret_69074e10'', ''images/photo.jpg'') \<and>
   ''secret_69074e10'' \<noteq> ''abc123'' \<and>
   fst (CreateShare mockService sample_now
       \<lparr>req_S3Path = ''images/'', req_Secret = ''abc123'', req_ExpiresAt = sample_expiry\<rparr>
       folder_world)
     = Inr \<lparr>resp_URL = ''https://example.com/25/11/02/secret_69074e07/images/'',
            resp_ExpiresAt = sample_expiry, resp_MaxAge = 24 * Hour\<rparr> \<and>
   parseSharePath (drop (length (BaseURL (config mockService)))
       ''https://example.com/25/11/02/secret_69074e07/images/'')
     = Some (''25-11-02'', ''secret_69074e07'', ''images'') \<and>
   ''images'' \<noteq> ''images/'' \<and>
   isValidS3Path ''images/photo.jpg'' \<and>
   objects sample_world ''images/photo.jpg'' = Some photo_md \<and>
   After sample_expiry sample_now \<and>
   fst (CreateShare (mockService\<lparr>cache := failingCacheService\<rparr>) sample_now
       \<lparr>req_S3Path = ''images/photo.jpg'', req_Secret = ''abc123'', req_ExpiresAt = sample_expiry\<rparr>
       sample_world)
     = Inl (Errorf ''failed to store share in cache''
         (Errorf ''failed to set key in Redis'' (ErrorString ''connection refused'')))"
  by code_simp

lemma CreateShare_success_iff:
  assumes "isValidS3Path p"
  shows "(\<exists>r w' c. CreateShare s now \<lparr>req_S3Path = p, req_Secret = secret, req_ExpiresAt = e\<rparr> w
             = (Inr r, w', c))
       = (\<exists>md w1. storage_HeadObject (storage s) p w = (Inr md, w1) \<and>
            unixNano now < unixNano e \<and>
            fst (cache_Set (cache s) (generateCacheKey p) secret (Until now e) w1) = None)"
proof (cases "storage_HeadObject (storage s) p w")
  case (Pair hr w1)
  show ?thesis
  proof (cases hr)
    case (Inl err)
    with Pair assms show ?thesis
      by (simp add: CreateShare_def)
  next
    case (Inr md)
    show ?thesis
    proof (cases "unixNano now < unixNano e")
      case False
      with Pair Inr assms show ?thesis
        by (simp add: CreateShare_def Let_def Until_def Sub_positive [symmetric])
    next
      case True
      then have pos: "\<not> Until now e \<le> 0"
        by (simp add: Until_def Sub_positive [symmetric])
      show ?thesis
      proof (cases "fst (cache_Set (cache s) (generateCacheKey p) secret (Until now e) w1)")
        case None
        with Pair Inr assms True pos show ?thesis
          by (auto simp: CreateShare_def Let_def split: prod.splits)
      next
        case (Some err)
        with Pair Inr assms True pos show ?thesis
          by (auto simp: CreateShare_def Let_def split: prod.splits)
      qed
    qed
  qed
qed

lemma CreateShare_url:
  assumes "CreateShare s now \<lparr>req_S3Path = p, req_Secret = secret, req_ExpiresAt = e\<rparr> w
             = (Inr r, w', c)"
  shows "resp_URL r = BaseURL (config s) @ ''/'' @ Format_YY_MM_DD e @ ''/'' @
           generateSecret p e @ ''/'' @ p"
  using assms
  by (auto simp: CreateShare_def generateShareURL_def Let_def
      split: if_splits prod.splits sum.splits option.splits)

lemma share_url_parts:
  assumes "isValidS3Path p" "last p \<noteq> CHR ''/''"
  shows "parseSharePath (drop (length base)
           (base @ ''/'' @ Format_YY_MM_DD e @ ''/'' @ generateSecret p e @ ''/'' @ p))
         = Some (Join (date_segments e) ''-'', generateSecret p e, p)"
proof -
  let ?dt = "date_of e"
  have "parseSharePath (''/'' @ pad2 (\<bar>year ?dt\<bar> mod 100) @ ''/'' @ pad2 (month ?dt) @ ''/'' @
          pad2 (day ?dt) @ ''/'' @ generateSecret p e @ ''/'' @ p)
        = Some (pad2 (\<bar>year ?dt\<bar> mod 100) @ ''-'' @ pad2 (month ?dt) @ ''-'' @ pad2 (day ?dt),
                generateSecret p e, p)"
    using assms valid_path_nonempty [of p]
    by (intro share_path_parts pad2_no_slash generateSecret_no_slash) (simp_all add: pad2_def)
  then show ?thesis
    by (simp add: Format_YY_MM_DD_def date_segments_def Let_def)
qed

text \<open>
  C1, amended: for every safe path \<open>p\<close>, secret and expiry \<open>e\<close>, \<open>CreateShare\<close>
  succeeds if and only if \<open>HeadObject\<close> of the object store succeeds for \<open>p\<close>, \<open>e\<close> is
  after the clock reading, and the cache write succeeds. The URL of a success is
  \<open>{base}/{YY}/{MM}/{DD}/{generated}/{p}\<close> with the date of \<open>e\<close> and the generated secret
  \<open>secret_\<close> followed by the hexadecimal of \<open>len(p) + unix(e)\<close>; when \<open>p\<close> does not end
  with a separator, splitting the URL path as the image handler does yields the date of
  \<open>e\<close>, the generated secret and \<open>p\<close>.
\<close>

theorem CreateShare_success_and_url:
  assumes "isValidS3Path p"
  shows "((\<exists>r w' c. CreateShare s now \<lparr>req_S3Path = p, req_Secret = secret, req_ExpiresAt = e\<rparr> w
             = (Inr r, w', c))
         = (\<exists>md w1. storage_HeadObject (storage s) p w = (Inr md, w1) \<and>
              unixNano now < unixNano e \<and>
              fst (cache_Set (cache s) (generateCacheKey p) secret (Until now e) w1) = None)) \<and>
         (\<forall>r w' c. CreateShare s now \<lparr>req_S3Path = p, req_Secret = secret, req_ExpiresAt = e\<rparr> w
             = (Inr r, w', c) \<longrightarrow>
            resp_URL r = BaseURL (config s) @ ''/'' @ Join (date_segments e) ''/'' @ ''/'' @
              generateSecret p e @ ''/'' @ p \<and>
            (last p \<noteq> CHR ''/'' \<longrightarrow>
               parseSharePath (drop (length (BaseURL (config s))) (resp_URL r))
                 = Some (Join (date_segments e) ''-'', generateSecret p e, p)))"
  using CreateShare_success_iff [OF assms, of s now secret e w]
    CreateShare_url [of s now p secret e w]
    share_url_parts [OF assms, of "BaseURL (config s)" e]
  by (auto simp: Format_segments)

theorem CreateShare_success_and_url_witness:
  "isValidS3Path ''images/photo.jpg'' \<and>
   (\<exists>r w' c. CreateShare mockService sample_now
      \<lparr>req_S3Path = ''images/photo.jpg'', req_Secret = ''abc123'', req_ExpiresAt = sample_expiry\<rparr>
      sample_world = (Inr r, w', c)) \<and>
   parseSharePath (drop (length (BaseURL (config mockService)))
       ''https://example.com/25/11/02/secret_69074e10/images/photo.jpg'')
     = Some (Join (date_segments sample_expiry) ''-'',
             generateSecret ''images/photo.jpg'' sample_expiry, ''images/photo.jpg'')"
proof -
  let ?req = "\<lparr>req_S3Path = ''images/photo.jpg'', req_Secret = ''abc123'',
     req_ExpiresAt = sample_expiry\<rparr>"
  note inst = CreateShare_success_and_url [OF photo_path_valid, of mockService sample_now
      "''abc123''" sample_expiry sample_world]
  have backend: "\<exists>md w1.
      storage_HeadObject (storage mockService) ''images/photo.jpg'' sample_world = (Inr md, w1) \<and>
      unixNano sample_now < unixNano sample_expiry \<and>
      fst (cache_Set (cache mockService) (generateCacheKey ''images/photo.jpg'') ''abc123''
             (Until sample_now sample_expiry) w1) = None"
    by (simp add: mockService_def mockStorageService_def mockCacheService_def sample_world_def
        sample_now_def sample_expiry_def Add_def Hour_def Second_def)
  with inst have ex: "\<exists>r w' c. CreateShare mockService sample_now ?req sample_world = (Inr r, w', c)"
    by blast
  then obtain r w' c where ok: "CreateShare mockService sample_now ?req sample_world = (Inr r, w', c)"
    by blast
  have "fst (CreateShare mockService sample_now ?req sample_world)
     = Inr \<lparr>resp_URL = ''https://example.com/25/11/02/secret_69074e10/images/photo.jpg'',
            resp_ExpiresAt = sample_expiry, resp_MaxAge = 24 * Hour\<rparr>"
    by code_simp
  with ok have url: "resp_URL r = ''https://example.com/25/11/02/secret_69074e10/images/photo.jpg''"
    by simp
  have open_end: "last ''images/photo.jpg'' \<noteq> CHR ''/''"
    by simp
  from inst ok open_end
  have "parseSharePath (drop (length (BaseURL (config mockService))) (resp_URL r))
     = Some (Join (date_segments sample_expiry) ''-'',
             generateSecret ''images/photo.jpg'' sample_expiry, ''images/photo.jpg'')"
    by blast
  with url ex photo_path_valid show ?thesis
    by simp
qed

section \<open>Unsafe paths\<close>

text \<open>
  The loop of \<open>path.Clean\<close> never removes the first \<open>dotdot\<close> bytes of its buffer: the
  leading slash of a rooted path and a leading run of \<open>..\<close> elements stay.
\<close>

lemma backtrack_bounds:
  "dotdot \<le> w \<Longrightarrow> dotdot \<le> backtrack buf dotdot w \<and> backtrack buf dotdot w \<le> w"
  by (induction w) auto


lemma clean_loop_keeps:
  "dotdot \<le> length out \<Longrightarrow>
   take dotdot (clean_loop rooted rest out dotdot) = take dotdot out"
proof (induction rooted rest out dotdot rule: clean_loop.induct)
  case (1 rooted rest out dotdot)
  show ?case
  proof (cases "rest = []")
    case True
    then show ?thesis by (subst clean_loop.simps) simp
  next
    case nonempty: False
    show ?thesis
    proof (cases "hd rest = CHR ''/''")
      case True
      with nonempty "1.IH"(1) "1.prems" show ?thesis
        by (subst clean_loop.simps) simp
    next
      case noslash: False
      show ?thesis
      proof (cases "is_dot_elem rest")
        case True
        with nonempty noslash "1.IH"(2) "1.prems" show ?thesis
          by (subst clean_loop.simps) simp
      next
        case nodot: False
        show ?thesis
        proof (cases "is_dotdot_elem rest")
          case dd: True
          show ?thesis
          proof (cases "dotdot < length out")
            case True
            then have "dotdot \<le> length out - 1"
              by simp
            from backtrack_bounds [OF this, of out]
            have b: "dotdot \<le> backtrack out dotdot (length out - 1)"
              "backtrack out dotdot (length out - 1) \<le> length out"
              by auto
            then have len: "dotdot \<le> length (take (backtrack out dotdot (length out - 1)) out)"
              by simp
            from "1.IH"(3) [OF nonempty noslash nodot dd True len] b
            have "take dotdot (clean_loop rooted (drop 2 rest)
               (take (backtrack out dotdot (length out - 1)) out) dotdot) = take dotdot out"
              by (simp add: min_def)
            with nonempty noslash nodot dd True show ?thesis
              by (subst clean_loop.simps) simp
          next
            case full: False
            with "1.prems" have eq: "length out = dotdot" by simp
            show ?thesis
            proof (cases rooted)
              case True
              with nonempty noslash nodot dd full "1.IH"(5) "1.prems" show ?thesis
                by (subst clean_loop.simps) simp
            next
              case False
              let ?out' = "(if length out > 0 then out @ ''/'' else out) @ ''..''"
              from "1.IH"(4) [OF nonempty noslash nodot dd full False refl]
              have "take (length ?out') (clean_loop rooted (drop 2 rest) ?out' (length ?out'))
                  = take (length ?out') ?out'"
                by simp
              then have "take dotdot (take (length ?out')
                  (clean_loop rooted (drop 2 rest) ?out' (length ?out'))) = take dotdot ?out'"
                by simp
              moreover have "dotdot \<le> length ?out'" using eq by simp
              ultimately have "take dotdot (clean_loop rooted (drop 2 rest) ?out' (length ?out'))
                  = take dotdot out"
                using eq by (simp add: min_def split: if_splits)
              with nonempty noslash nodot dd full False show ?thesis
                by (subst clean_loop.simps) (simp add: Let_def)
            qed
          qed
        next
          case elem: False
          let ?out' = "(if (rooted \<and> length out \<noteq> 1) \<or> (\<not> rooted \<and> length out \<noteq> 0)
                     then out @ ''/'' else out)"
          have "dotdot \<le> length (?out' @ takeWhile (\<lambda>x. x \<noteq> CHR ''/'') rest)"
            using "1.prems" by simp
          from "1.IH"(6) [OF nonempty noslash nodot elem refl this] "1.prems"
          have "take dotdot (clean_loop rooted (dropWhile (\<lambda>x. x \<noteq> CHR ''/'') rest)
              (?out' @ takeWhile (\<lambda>x. x \<noteq> CHR ''/'') rest) dotdot) = take dotdot out"
            by simp
          with nonempty noslash nodot elem show ?thesis
            by (subst clean_loop.simps) (simp add: Let_def)
        qed
      qed
    qed
  qed
qed

lemma HasPrefix_Contains: "HasPrefix s sub \<Longrightarrow> Contains s sub"
  by (cases s) (auto simp: HasPrefix_def)

lemma Clean_rooted:
  assumes "HasPrefix p ''/''"
  shows "HasPrefix (Clean p) ''/''"
proof -
  from assms obtain cs where p: "p = CHR ''/'' # cs"
    by (cases p) (auto simp: HasPrefix_def)
  have "take 1 (clean_loop True cs ''/'' 1) = take 1 ''/''"
    by (rule clean_loop_keeps) simp
  then have keep: "take 1 (clean_loop True cs ''/'' 1) = ''/''"
    by simp
  then have "clean_loop True cs ''/'' 1 \<noteq> []"
    by auto
  with p keep show ?thesis
    by (simp add: Clean_def HasPrefix_def)
qed

lemma Clean_leading_dotdot:
  assumes "is_dotdot_elem p"
  shows "HasPrefix (Clean p) ''..''"
proof -
  from assms obtain cs where p: "p = CHR ''.'' # CHR ''.'' # cs"
    and cs: "cs = [] \<or> hd cs = CHR ''/''"
    by (auto simp: is_dotdot_elem_def split: list.splits)
  have nodot: "\<not> is_dot_elem p"
    using p by (simp add: is_dot_elem_def)
  have step: "clean_loop False p [] 0 = clean_loop False cs ''..'' 2"
    using p nodot assms by (subst clean_loop.simps) (simp add: numeral_2_eq_2)
  have "take 2 (clean_loop False cs ''..'' 2) = take 2 ''..''"
    by (rule clean_loop_keeps) simp
  then have keep: "take 2 (clean_loop False cs ''..'' 2) = ''..''"
    by simp
  then have "clean_loop False cs ''..'' 2 \<noteq> []"
    by auto
  with p keep step show ?thesis
    by (simp add: Clean_def HasPrefix_def numeral_2_eq_2)
qed

lemma unsafe_path_invalid:
  assumes "HasPrefix p ''/'' \<or> is_dotdot_elem p \<or> Contains (Clean p) ''..''"
  shows "\<not> isValidS3Path p"
  using assms Clean_rooted [of p] Clean_leading_dotdot [of p]
    HasPrefix_Contains [of "Clean p" "''..''"]
  by (auto simp: isValidS3Path_def Let_def)

text \<open>
  C2, as stated, at the path \<open>a/../b\<close>: it contains a parent-directory segment, but
  cleaning resolves it to \<open>b\<close>, so validation accepts the path and all three operations
  go on to their adapter (the object store is asked for \<open>a/../b\<close>, the cache for
  \<open>image-auth:a/../b\<close>); none fails with \<open>ErrInvalidPath\<close>.
\<close>

theorem resolved_parent_segment_counterexample:
  "''..'' \<in> set (Split ''a/../b'' CHR ''/'') \<and>
   isValidS3Path ''a/../b'' \<and>
   fst (CreateShare mockService sample_now
     \<lparr>req_S3Path = ''a/../b'', req_Secret = ''abc123'', req_ExpiresAt = sample_expiry\<rparr>
     sample_world) \<noteq> Inl ErrInvalidPath \<and>
   snd (snd (CreateShare mockService sample_now
     \<lparr>req_S3Path = ''a/../b'', req_Secret = ''abc123'', req_ExpiresAt = sample_expiry\<rparr>
     sample_world)) = [CallHeadObject ''a/../b''] \<and>
   fst (ValidateShare mockService ''a/../b'' ''abc123'' sample_world) = Some ErrUnauthorized \<and>
   snd (snd (ValidateShare mockService ''a/../b'' ''abc123'' sample_world))
     = [CallGet ''image-auth:a/../b''] \<and>
   fst (GetObject mockService ''a/../b'' sample_world)
     = Inl (Errorf ''failed to get object'' ErrNotFound) \<and>
   snd (snd (GetObject mockService ''a/../b'' sample_world)) = [CallGetObject ''a/../b'']"
  by code_simp

text \<open>
  C2, amended: for every path that begins with a path separator, or whose first segment
  is a parent-directory segment, or more generally whose cleaned form still contains
  \<open>..\<close>, each of \<open>CreateShare\<close>, \<open>ValidateShare\<close> and \<open>GetObject\<close> fails with
  \<open>ErrInvalidPath\<close>, makes no adapter call and leaves the backend unchanged.
\<close>

theorem unsafe_path_rejected:
  assumes "HasPrefix p ''/'' \<or> is_dotdot_elem p \<or> Contains (Clean p) ''..''"
  shows "CreateShare s now \<lparr>req_S3Path = p, req_Secret = secret, req_ExpiresAt = e\<rparr> w
           = (Inl ErrInvalidPath, w, []) \<and>
         ValidateShare s p presented w = (Some ErrInvalidPath, w, []) \<and>
         GetObject s p w = (Inl ErrInvalidPath, w, [])"
  using unsafe_path_invalid [OF assms]
  by (simp add: CreateShare_def ValidateShare_def GetObject_def)

theorem unsafe_path_rejected_witness:
  "CreateShare mockService sample_now
     \<lparr>req_S3Path = ''../etc/passwd'', req_Secret = ''test-secret'', req_ExpiresAt = sample_expiry\<rparr>
     sample_world = (Inl ErrInvalidPath, sample_world, []) \<and>
   ValidateShare mockService ''../etc/passwd'' ''test-secret'' sample_world
     = (Some ErrInvalidPath, sample_world, []) \<and>
   GetObject mockService ''/etc/passwd'' sample_world = (Inl ErrInvalidPath, sample_world, [])"
proof -
  have up: "HasPrefix ''../etc/passwd'' ''/'' \<or> is_dotdot_elem ''../etc/passwd'' \<or>
      Contains (Clean ''../etc/passwd'') ''..''"
    by code_simp
  have rooted: "HasPrefix ''/etc/passwd'' ''/'' \<or> is_dotdot_elem ''/etc/passwd'' \<or>
      Contains (Clean ''/etc/passwd'') ''..''"
    by code_simp
  from unsafe_path_rejected [OF up, of mockService sample_now "''test-secret''" sample_expiry
      sample_world "''test-secret''"]
    unsafe_path_rejected [OF rooted, of mockService sample_now "''test-secret''" sample_expiry
      sample_world "''test-secret''"]
  show ?thesis by simp
qed

section \<open>Malformed share requests\<close>

text \<open>
  C3, as stated, at the path \<open>/invalid/path\<close> (two segments): the handler answers with
  \<open>http.NotFound\<close>, status 404, not 400.
\<close>

theorem HandleImage_short_path_counterexample:
  "status (fst (HandleImage mockService sample_now ''/invalid/path'' sample_world)) = 404 \<and>
   status (fst (HandleImage mockService sample_now ''/invalid/path'' sample_world)) \<noteq> 400"
  by code_simp

text \<open>
  C3, amended: a request whose path splits into fewer than five segments is answered with
  the plain 404 of \<open>http.NotFound\<close>, and no adapter is called; a request outside the
  reserved routes (\<open>/api/...\<close>, \<open>/health\<close>, \<open>/ready\<close>) with at least five segments
  whose first three segments do not parse as a date is answered with status 400 and the
  message "invalid date format", and no adapter is called.
\<close>

theorem HandleImage_malformed:
  "(length (Split (Trim urlPath CHR ''/'') CHR ''/'') < 5 \<longrightarrow>
      HandleImage h now urlPath w = (NotFound, w, [])) \<and>
   (\<not> HasPrefix urlPath ''/api/'' \<and> urlPath \<noteq> ''/health'' \<and> urlPath \<noteq> ''/ready'' \<and>
    parseSharePath urlPath = Some (dateStr, secret, s3Path) \<and> parseDate dateStr = Inl err \<longrightarrow>
      HandleImage h now urlPath w = (writeError ''invalid date format'' 400, w, []))"
  by (simp add: HandleImage_def parseSharePath_def Let_def)

theorem HandleImage_malformed_witness:
  "length (Split (Trim ''/invalid/path'' CHR ''/'') CHR ''/'') < 5 \<and>
   HandleImage mockService sample_now ''/invalid/path'' sample_world
     = (NotFound, sample_world, []) \<and>
   parseSharePath ''/2x/11/02/abc123/images/photo.jpg''
     = Some (''2x-11-02'', ''abc123'', ''images/photo.jpg'') \<and>
   parseDate ''2x-11-02'' = Inl (ErrorString ''parsing time: cannot parse year'') \<and>
   HandleImage mockService sample_now ''/2x/11/02/abc123/images/photo.jpg'' sample_world
     = (writeError ''invalid date format'' 400, sample_world, [])"
proof -
  have short: "length (Split (Trim ''/invalid/path'' CHR ''/'') CHR ''/'') < 5"
    by code_simp
  have route: "\<not> HasPrefix ''/2x/11/02/abc123/images/photo.jpg'' ''/api/''"
    by code_simp
  have parts: "parseSharePath ''/2x/11/02/abc123/images/photo.jpg''
     = Some (''2x-11-02'', ''abc123'', ''images/photo.jpg'')"
    by code_simp
  have bad: "parseDate ''2x-11-02'' = Inl (ErrorString ''parsing time: cannot parse year'')"
    by code_simp
  from short
    HandleImage_malformed [where urlPath = "''/invalid/path''" and h = mockService
      and now = sample_now and w = sample_world]
  have one: "HandleImage mockService sample_now ''/invalid/path'' sample_world
     = (NotFound, sample_world, [])"
    by blast
  from route parts bad
    HandleImage_malformed [where urlPath = "''/2x/11/02/abc123/images/photo.jpg''"
      and dateStr = "''2x-11-02''" and secret = "''abc123''" and s3Path = "''images/photo.jpg''"
      and err = "ErrorString ''parsing time: cannot parse year''"
      and h = mockService and now = sample_now and w = sample_world]
  have two: "HandleImage mockService sample_now ''/2x/11/02/abc123/images/photo.jpg''
       sample_world = (writeError ''invalid date format'' 400, sample_world, [])"
    by simp
  from short one parts bad two show ?thesis by blast
qed

section \<open>Creating a share over HTTP\<close>

text \<open>
  C4, at the request \<open>POST /api/shares\<close> with the body
  \<open>{"s3_path": "../etc/passwd", "secret": "test-secret"}\<close> and an expiry a day ahead:
  the service refuses the path with \<open>ErrInvalidPath\<close> and the handler answers with
  status 500, as for every error of \<open>CreateShare\<close>; the image handler maps the same
  error to 400.
\<close>

theorem HandleCreateShare_invalid_path_status:
  "fst (HandleCreateShare mockService sample_now sample_now ''POST''
         (Some \<lparr>csq_S3Path = ''../etc/passwd'', csq_Secret = ''test-secret'',
                 csq_ExpiresAt = Add sample_now (24 * Hour)\<rparr>) sample_world)
   = writeError ''failed to create share'' 500"
  by code_simp

section \<open>Overwriting a share\<close>

text \<open>
  C5: when \<open>CreateShare\<close> succeeds for a path with the secret \<open>s1\<close> and then succeeds
  again for the same path with a different secret \<open>s2\<close>, on a cache that returns from
  \<open>Get\<close> what the last successful \<open>Set\<close> of the key stored, then \<open>s1\<close>, valid after
  the first call, is refused with \<open>ErrUnauthorized\<close> after the second, and \<open>s2\<close> is
  accepted. A successful call implies a safe path, an existing object and an expiry in the
  future.
\<close>

theorem CreateShare_overwrite:
  assumes first: "CreateShare s now1 \<lparr>req_S3Path = p, req_Secret = s1, req_ExpiresAt = e1\<rparr> w0
                    = (Inr r1, w1, c1)"
    and second: "CreateShare s now2 \<lparr>req_S3Path = p, req_Secret = s2, req_ExpiresAt = e2\<rparr> w1
                    = (Inr r2, w2, c2)"
    and contract: "\<forall>k v d w w'. cache_Set (cache s) k v d w = (None, w') \<longrightarrow>
                     fst (cache_Get (cache s) k w') = Inr v"
    and differ: "s1 \<noteq> s2"
  shows "fst (ValidateShare s p s1 w1) = None \<and>
         fst (ValidateShare s p s1 w2) = Some ErrUnauthorized \<and>
         fst (ValidateShare s p s2 w2) = None"
proof -
  from second have valid: "isValidS3Path p"
    by (auto simp: CreateShare_def split: if_splits)
  have stored: "fst (cache_Get (cache s) (generateCacheKey p) w') = Inr v"
    if "CreateShare s now \<lparr>req_S3Path = p, req_Secret = v, req_ExpiresAt = e\<rparr> w = (Inr r, w', c)"
    for now v e w r w' c
  proof -
    from that obtain d w'' where "cache_Set (cache s) (generateCacheKey p) v d w'' = (None, w')"
      by (auto simp: CreateShare_def Let_def
          split: if_splits prod.splits sum.splits option.splits)
    with contract show ?thesis by blast
  qed
  from valid stored [OF first] stored [OF second] differ show ?thesis
    by (auto simp: ValidateShare_def Let_def split: prod.splits sum.splits)
qed

theorem CreateShare_overwrite_witness:
  "fst (ValidateShare mockService ''images/photo.jpg'' ''s1'' first_shared) = None \<and>
   fst (ValidateShare mockService ''images/photo.jpg'' ''s1'' second_shared) = Some ErrUnauthorized \<and>
   fst (ValidateShare mockService ''images/photo.jpg'' ''s2'' second_shared) = None"
proof -
  have "\<not> isl (fst (CreateShare mockService sample_now
       \<lparr>req_S3Path = ''images/photo.jpg'', req_Secret = ''s1'', req_ExpiresAt = sample_expiry\<rparr>
       sample_world))"
    by code_simp
  then obtain r1 c1 where first: "CreateShare mockService sample_now
       \<lparr>req_S3Path = ''images/photo.jpg'', req_Secret = ''s1'', req_ExpiresAt = sample_expiry\<rparr>
       sample_world = (Inr r1, first_shared, c1)"
    unfolding first_shared_def using result_triple by blast
  have "\<not> isl (fst (CreateShare mockService sample_now
       \<lparr>req_S3Path = ''images/photo.jpg'', req_Secret = ''s2'', req_ExpiresAt = sample_expiry\<rparr>
       first_shared))"
    by code_simp
  then obtain r2 c2 where second: "CreateShare mockService sample_now
       \<lparr>req_S3Path = ''images/photo.jpg'', req_Secret = ''s2'', req_ExpiresAt = sample_expiry\<rparr>
       first_shared = (Inr r2, second_shared, c2)"
    unfolding second_shared_def using result_triple by blast
  have differ: "''s1'' \<noteq> ''s2''"
    by simp
  from CreateShare_overwrite [OF first second mock_cache_contract differ]
  show ?thesis .
qed

section \<open>Validation: the refusal of a secret\<close>

text \<open>
  C6: for safe paths, validation with a wrong secret for a shared path (the cache holds
  another secret) and validation with any secret for a path never shared (the cache
  reports \<open>ErrNotFound\<close>) return the same error, \<open>ErrUnauthorized\<close>, and the image
  handler answers both with the same response, status 401 and the message "unauthorized".
\<close>

theorem ValidateShare_unauthorized_same:
  assumes "isValidS3Path p" "isValidS3Path q"
    and "fst (cache_Get (cache s) (generateCacheKey p) w) = Inr stored"
    and "stored \<noteq> wrongSecret"
    and "fst (cache_Get (cache s) (generateCacheKey q) w') = Inl ErrNotFound"
  shows "fst (ValidateShare s p wrongSecret w) = Some ErrUnauthorized \<and>
         fst (ValidateShare s q anySecret w') = Some ErrUnauthorized \<and>
         fst (ValidateShare s p wrongSecret w) = fst (ValidateShare s q anySecret w') \<and>
         fst (serveShare s p wrongSecret w) = writeError ''unauthorized'' 401 \<and>
         fst (serveShare s q anySecret w') = writeError ''unauthorized'' 401"
  using assms
  by (auto simp: serveShare_def ValidateShare_def Let_def split: prod.splits sum.splits)

theorem ValidateShare_unauthorized_same_witness:
  "fst (ValidateShare mockService ''images/photo.jpg'' ''wrong-secret'' shared_world)
     = Some ErrUnauthorized \<and>
   fst (ValidateShare mockService ''images/other.jpg'' ''abc123'' shared_world)
     = Some ErrUnauthorized"
proof -
  have stored: "fst (cache_Get (cache mockService) (generateCacheKey ''images/photo.jpg'')
      shared_world) = Inr ''abc123''"
    using shared_world_Get(1) by simp
  have differs: "''abc123'' \<noteq> ''wrong-secret''"
    by simp
  have miss: "fst (cache_Get (cache mockService) (generateCacheKey ''images/other.jpg'')
      shared_world) = Inl ErrNotFound"
    using shared_world_Get(2) by simp
  from ValidateShare_unauthorized_same [OF photo_path_valid other_path_valid stored differs miss,
      of "''abc123''"]
  show ?thesis by blast
qed

section \<open>Expiry of a share link\<close>

text \<open>A date in two-digit fields parses to midnight UTC of that day.\<close>

lemma digit_char_decimal:
  assumes "k < 10"
  shows "isDigit (digit_char k)" "digit_val (digit_char k) = int k"
    "digit_char k \<noteq> CHR ''-''" "digit_char k \<noteq> CHR ''+''"
    "digit_char k \<noteq> CHR ''a''" "digit_char k \<noteq> CHR ''h''" "digit_char k \<noteq> CHR ''r''"
proof -
  from assms have "k = 0 \<or> k = 1 \<or> k = 2 \<or> k = 3 \<or> k = 4 \<or> k = 5 \<or> k = 6 \<or> k = 7 \<or> k = 8 \<or> k = 9"
    by arith
  then show "isDigit (digit_char k)" "digit_val (digit_char k) = int k"
    "digit_char k \<noteq> CHR ''-''" "digit_char k \<noteq> CHR ''+''"
    "digit_char k \<noteq> CHR ''a''" "digit_char k \<noteq> CHR ''h''" "digit_char k \<noteq> CHR ''r''"
    by (auto simp: digit_char_def isDigit_def digit_val_def)
qed

lemma pad2_digits:
  assumes "0 \<le> n" "n < 100"
  shows "\<exists>a b. pad2 n = [digit_char a, digit_char b] \<and> a < 10 \<and> b < 10 \<and> int a * 10 + int b = n"
proof -
  define k where "k = nat n"
  with assms have n: "n = int k" and k: "k < 100"
    by auto
  have tens: "nat (n div 10) mod 10 = k div 10"
    using k by (simp add: n nat_div_distrib)
  have units: "nat n mod 10 = k mod 10"
    by (simp add: n)
  have sum: "int (k div 10) * 10 + int (k mod 10) = n"
    unfolding n by (simp add: zdiv_int zmod_int)
  have "k div 10 < 10" "k mod 10 < 10"
    using k by auto
  with tens units sum show ?thesis
    unfolding pad2_def by metis
qed

lemma atoi_pad2:
  assumes "0 \<le> n" "n < 100"
  shows "atoi (pad2 n) = Some n"
proof -
  from pad2_digits [OF assms] obtain a b where p: "pad2 n = [digit_char a, digit_char b]"
    and ab: "a < 10" "b < 10" "int a * 10 + int b = n"
    by blast
  with digit_char_decimal [OF ab(1)] digit_char_decimal [OF ab(2)] show ?thesis
    by (simp add: atoi_def decimal_def Let_def)
qed

lemma getnum_pad2:
  assumes "0 \<le> n" "n < 100"
  shows "getnum_fixed (pad2 n @ rest) = Some (n, rest)"
proof -
  from pad2_digits [OF assms] obtain a b where p: "pad2 n = [digit_char a, digit_char b]"
    and ab: "a < 10" "b < 10" "int a * 10 + int b = n"
    by blast
  with digit_char_decimal [OF ab(1)] digit_char_decimal [OF ab(2)] show ?thesis
    by (simp add: getnum_fixed_def)
qed

lemma pad2_length: "length (pad2 n) = 2"
  by (simp add: pad2_def)

lemma daysIn_bound: "daysIn m y \<le> 31"
  by (simp add: daysIn_def)

lemma parseDate_well_formed:
  assumes "0 \<le> yy" "yy < 100" "1 \<le> m" "m \<le> 12" "1 \<le> d" "d \<le> daysIn m ((if 69 \<le> yy then yy + 1900 else yy + 2000))"
  shows "parseDate (pad2 yy @ ''-'' @ pad2 m @ ''-'' @ pad2 d)
           = Inr (midnight_UTC ((if 69 \<le> yy then yy + 1900 else yy + 2000)) m d)"
proof -
  have d100: "0 \<le> d" "d < 100"
    using assms daysIn_bound [of m "if 69 \<le> yy then yy + 1900 else yy + 2000"] by auto
  have m100: "0 \<le> m" "m < 100"
    using assms by auto
  have year: "atoi (take 2 (pad2 yy @ ''-'' @ pad2 m @ ''-'' @ pad2 d)) = Some yy"
    using atoi_pad2 [OF assms(1,2)] by (simp add: pad2_length)
  have rest: "drop 2 (pad2 yy @ ''-'' @ pad2 m @ ''-'' @ pad2 d) = CHR ''-'' # pad2 m @ ''-'' @ pad2 d"
    by (simp add: pad2_length)
  have month: "getnum_fixed (pad2 m @ ''-'' @ pad2 d) = Some (m, ''-'' @ pad2 d)"
    by (rule getnum_pad2 [OF m100])
  have day: "getnum_fixed (pad2 d) = Some (d, [])"
    using getnum_pad2 [OF d100, of "[]"] by simp
  from assms year rest month day show ?thesis
    by (simp add: parseDate_def Parse_YY_MM_DD_def pad2_length skip_dash_def Let_def)
qed

lemma serveShare_status:
  "status (fst (serveShare h s3Path secret w)) \<in> {200, 400, 401, 404, 500}"
  by (auto simp: serveShare_def writeError_def split: prod.splits option.splits sum.splits)

lemma pad2_first_char:
  "\<exists>c cs. pad2 n = c # cs \<and> c \<noteq> CHR ''a'' \<and> c \<noteq> CHR ''h'' \<and> c \<noteq> CHR ''r''"
proof -
  have "nat (n div 10) mod 10 < 10"
    by simp
  from digit_char_decimal(5-7) [OF this] show ?thesis
    by (simp add: pad2_def)
qed

lemma dated_url_route:
  "\<not> HasPrefix (''/'' @ pad2 n @ rest) ''/api/'' \<and> ''/'' @ pad2 n @ rest \<noteq> ''/health'' \<and>
   ''/'' @ pad2 n @ rest \<noteq> ''/ready''"
proof -
  from pad2_first_char [of n] obtain c cs where "pad2 n = c # cs"
    "c \<noteq> CHR ''a''" "c \<noteq> CHR ''h''" "c \<noteq> CHR ''r''"
    by blast
  then show ?thesis
    by (simp add: HasPrefix_def)
qed

lemma HandleImage_after_parse:
  assumes "\<not> HasPrefix urlPath ''/api/''" "urlPath \<noteq> ''/health''" "urlPath \<noteq> ''/ready''"
    and "parseSharePath urlPath = Some (dateStr, secret, s3Path)"
    and "parseDate dateStr = Inr expiresAt"
  shows "HandleImage h now urlPath w =
           (if unixNano expiresAt < unixNano now then (writeError ''link expired'' 403, w, [])
            else serveShare h s3Path secret w)"
  using assms by (simp add: HandleImage_def After_def)

lemma serveShare_refused:
  "ValidateShare h s3Path secret w = (Some err, w1, c1) \<Longrightarrow>
   serveShare h s3Path secret w =
     (if err = ErrUnauthorized then writeError ''unauthorized'' 401
      else if err = ErrInvalidPath then writeError ''invalid path'' 400
      else writeError ''internal error'' 500, w1, c1)"
  by (simp add: serveShare_def)

lemma serveShare_retrieves:
  "ValidateShare h s3Path secret w = (None, w1, c1) \<Longrightarrow>
   snd (serveShare h s3Path secret w)
     = (fst (snd (GetObject h s3Path w1)), c1 @ snd (snd (GetObject h s3Path w1))) \<and>
   (\<not> isl (fst (GetObject h s3Path w1)) \<longrightarrow> status (fst (serveShare h s3Path secret w)) = 200)"
  by (auto simp: serveShare_def split: prod.splits sum.splits)

lemma serveShare_first_call:
  "isValidS3Path s3Path \<Longrightarrow>
   take 1 (snd (snd (serveShare h s3Path secret w))) = [CallGet (generateCacheKey s3Path)]"
  by (auto simp: serveShare_def ValidateShare_def Let_def split: prod.splits sum.splits option.splits)

lemma expiry_general:
  assumes route: "\<not> HasPrefix urlPath ''/api/''" "urlPath \<noteq> ''/health''" "urlPath \<noteq> ''/ready''"
    and parts: "parseSharePath urlPath = Some (dateStr, secret, s3Path)"
    and date: "parseDate dateStr = Inr expiresAt"
  shows "((status (fst (HandleImage h now urlPath w)) = 403) = (unixNano expiresAt < unixNano now)) \<and>
      (unixNano expiresAt < unixNano now \<longrightarrow>
         HandleImage h now urlPath w = (writeError ''link expired'' 403, w, [])) \<and>
      (unixNano now \<le> unixNano expiresAt \<longrightarrow>
         (\<forall>err w1 c1. ValidateShare h s3Path secret w = (Some err, w1, c1) \<longrightarrow>
            HandleImage h now urlPath w =
              (if err = ErrUnauthorized then writeError ''unauthorized'' 401
               else if err = ErrInvalidPath then writeError ''invalid path'' 400
               else writeError ''internal error'' 500, w1, c1)) \<and>
         (\<forall>w1 c1. ValidateShare h s3Path secret w = (None, w1, c1) \<longrightarrow>
            snd (HandleImage h now urlPath w)
              = (fst (snd (GetObject h s3Path w1)), c1 @ snd (snd (GetObject h s3Path w1))) \<and>
            (\<not> isl (fst (GetObject h s3Path w1)) \<longrightarrow>
               status (fst (HandleImage h now urlPath w)) = 200)) \<and>
         (isValidS3Path s3Path \<longrightarrow>
            take 1 (snd (snd (HandleImage h now urlPath w)))
              = [CallGet (generateCacheKey s3Path)]))"
proof -
  note step = HandleImage_after_parse [OF route parts date, of h now w]
  have st: "status (fst (serveShare h s3Path secret w)) \<noteq> 403"
    using serveShare_status [of h s3Path secret w] by auto
  have decision: "(status (fst (HandleImage h now urlPath w)) = 403)
      = (unixNano expiresAt < unixNano now)"
    using step st by (simp add: writeError_def)
  have late: "unixNano expiresAt < unixNano now \<longrightarrow>
       HandleImage h now urlPath w = (writeError ''link expired'' 403, w, [])"
    using step by simp
  have early: "HandleImage h now urlPath w = serveShare h s3Path secret w"
    if "unixNano now \<le> unixNano expiresAt"
    using step that by simp
  show ?thesis
    using decision late early serveShare_refused [of h s3Path secret w]
      serveShare_retrieves [of h s3Path secret w] serveShare_first_call [of s3Path h secret w]
    by (intro conjI impI allI) simp_all
qed

lemma expiry_dated:
  assumes wf: "0 \<le> yy" "yy < 100" "Y = (if 69 \<le> yy then yy + 1900 else yy + 2000)"
      "1 \<le> m" "m \<le> 12" "1 \<le> d" "d \<le> daysIn m Y"
    and seg: "CHR ''/'' \<notin> set sec" "p \<noteq> []" "last p \<noteq> CHR ''/''"
  shows "parseSharePath (''/'' @ pad2 yy @ ''/'' @ pad2 m @ ''/'' @ pad2 d @ ''/'' @ sec @ ''/'' @ p)
        = Some (pad2 yy @ ''-'' @ pad2 m @ ''-'' @ pad2 d, sec, p) \<and>
      parseDate (pad2 yy @ ''-'' @ pad2 m @ ''-'' @ pad2 d) = Inr (midnight_UTC Y m d) \<and>
      ((status (fst (HandleImage h now
           (''/'' @ pad2 yy @ ''/'' @ pad2 m @ ''/'' @ pad2 d @ ''/'' @ sec @ ''/'' @ p) w)) = 403)
        = (days_from_civil \<lparr>year = Y, month = m, day = d\<rparr> * 86400 * 1000000000 < unixNano now))"
proof -
  let ?url = "''/'' @ pad2 yy @ ''/'' @ pad2 m @ ''/'' @ pad2 d @ ''/'' @ sec @ ''/'' @ p"
  have parts: "parseSharePath ?url = Some (pad2 yy @ ''-'' @ pad2 m @ ''-'' @ pad2 d, sec, p)"
    using seg by (intro share_path_parts pad2_no_slash) (simp_all add: pad2_def)
  have date: "parseDate (pad2 yy @ ''-'' @ pad2 m @ ''-'' @ pad2 d) = Inr (midnight_UTC Y m d)"
    using parseDate_well_formed [of yy m d] wf by simp
  have route: "\<not> HasPrefix ?url ''/api/''" "?url \<noteq> ''/health''" "?url \<noteq> ''/ready''"
    using dated_url_route [of yy "''/'' @ pad2 m @ ''/'' @ pad2 d @ ''/'' @ sec @ ''/'' @ p"]
    by simp_all
  from expiry_general [OF route parts date, of h now w]
  have "(status (fst (HandleImage h now ?url w)) = 403)
      = (unixNano (midnight_UTC Y m d) < unixNano now)"
    by blast
  with parts date show ?thesis
    by (simp add: midnight_UTC_def)
qed

text \<open>
  C7, as stated, at the request \<open>GET /25/11/02/abc123/images/photo.jpg\<close> when the clock
  reads one nanosecond after midnight UTC of 2025-11-02: the clock and the date parsed
  from the URL agree to the second, and the handler answers 403 "link expired".
\<close>

theorem HandleImage_same_second_counterexample:
  "parseSharePath ''/25/11/02/abc123/images/photo.jpg''
     = Some (''25-11-02'', ''abc123'', ''images/photo.jpg'') \<and>
   parseDate ''25-11-02'' = Inr \<lparr>unixNano = 1762041600000000000, zoneOffset = 0\<rparr> \<and>
   Unix \<lparr>unixNano = 1762041600000000001, zoneOffset = 0\<rparr>
     = Unix \<lparr>unixNano = 1762041600000000000, zoneOffset = 0\<rparr> \<and>
   fst (HandleImage mockService \<lparr>unixNano = 1762041600000000001, zoneOffset = 0\<rparr>
         ''/25/11/02/abc123/images/photo.jpg'' shared_world)
     = writeError ''link expired'' 403"
  by code_simp

text \<open>
  C7, amended: for every share request (outside the reserved routes, at least five
  segments, a date that parses to \<open>expiresAt\<close>) the handler answers 403 "link expired"
  exactly when the clock, to the nanosecond, is after \<open>expiresAt\<close>, and then without any
  adapter call or change of the backend, whatever the adapters and the backend are. When
  the clock reads exactly \<open>expiresAt\<close>, or earlier, the request is not expired and
  validation proceeds: a safe path makes the handler's first adapter call the \<open>Get\<close> of
  the path's key; an error of \<open>ValidateShare\<close> is answered with 401, 400 or 500 and its
  backend and calls; after a successful \<open>ValidateShare\<close> the handler calls \<open>GetObject\<close>
  and answers 200 when that succeeds. One nanosecond later, and so one second later, the
  answer is 403. The instant \<open>expiresAt\<close> is read from the URL alone: for a URL
  \<open>/YY/MM/DD/secret/path\<close> with a valid date it is midnight UTC of that day, in the
  1900s for \<open>YY\<close> from 69 and in the 2000s below.
\<close>

theorem HandleImage_expiry:
  "(\<not> HasPrefix urlPath ''/api/'' \<and> urlPath \<noteq> ''/health'' \<and> urlPath \<noteq> ''/ready'' \<and>
    parseSharePath urlPath = Some (dateStr, secret, s3Path) \<and>
    parseDate dateStr = Inr expiresAt \<longrightarrow>
      ((status (fst (HandleImage h now urlPath w)) = 403) = (unixNano expiresAt < unixNano now)) \<and>
      (unixNano expiresAt < unixNano now \<longrightarrow>
         HandleImage h now urlPath w = (writeError ''link expired'' 403, w, [])) \<and>
      (unixNano now \<le> unixNano expiresAt \<longrightarrow>
         (\<forall>err w1 c1. ValidateShare h s3Path secret w = (Some err, w1, c1) \<longrightarrow>
            HandleImage h now urlPath w =
              (if err = ErrUnauthorized then writeError ''unauthorized'' 401
               else if err = ErrInvalidPath then writeError ''invalid path'' 400
               else writeError ''internal error'' 500, w1, c1)) \<and>
         (\<forall>w1 c1. ValidateShare h s3Path secret w = (None, w1, c1) \<longrightarrow>
            snd (HandleImage h now urlPath w)
              = (fst (snd (GetObject h s3Path w1)), c1 @ snd (snd (GetObject h s3Path w1))) \<and>
            (\<not> isl (fst (GetObject h s3Path w1)) \<longrightarrow>
               status (fst (HandleImage h now urlPath w)) = 200)) \<and>
         (isValidS3Path s3Path \<longrightarrow>
            take 1 (snd (snd (HandleImage h now urlPath w)))
              = [CallGet (generateCacheKey s3Path)]))) \<and>
   (0 \<le> yy \<and> yy < 100 \<and> Y = (if 69 \<le> yy then yy + 1900 else yy + 2000) \<and>
    1 \<le> m \<and> m \<le> 12 \<and> 1 \<le> d \<and> d \<le> daysIn m Y \<and>
    CHR ''/'' \<notin> set sec \<and> p \<noteq> [] \<and> last p \<noteq> CHR ''/'' \<longrightarrow>
      parseSharePath (''/'' @ pad2 yy @ ''/'' @ pad2 m @ ''/'' @ pad2 d @ ''/'' @ sec @ ''/'' @ p)
        = Some (pad2 yy @ ''-'' @ pad2 m @ ''-'' @ pad2 d, sec, p) \<and>
      parseDate (pad2 yy @ ''-'' @ pad2 m @ ''-'' @ pad2 d) = Inr (midnight_UTC Y m d) \<and>
      ((status (fst (HandleImage h' now'
           (''/'' @ pad2 yy @ ''/'' @ pad2 m @ ''/'' @ pad2 d @ ''/'' @ sec @ ''/'' @ p) w')) = 403)
        = (days_from_civil \<lparr>year = Y, month = m, day = d\<rparr> * 86400 * 1000000000 < unixNano now')))"
  by (rule conjI; rule impI; elim conjE) (rule expiry_general expiry_dated; assumption)+

theorem HandleImage_expiry_witness:
  "HandleImage mockService \<lparr>unixNano = 1762041600000000000, zoneOffset = 0\<rparr>
     ''/25/11/02/wrong-secret/images/photo.jpg'' shared_world
     = (writeError ''unauthorized'' 401, shared_world, [CallGet ''image-auth:images/photo.jpg'']) \<and>
   HandleImage mockService \<lparr>unixNano = 1762041601000000000, zoneOffset = 0\<rparr>
     ''/25/11/02/wrong-secret/images/photo.jpg'' shared_world
     = (writeError ''link expired'' 403, shared_world, []) \<and>
   take 1 (snd (snd (HandleImage mockService \<lparr>unixNano = 1762041600000000000, zoneOffset = 0\<rparr>
     ''/25/11/02/wrong-secret/images/photo.jpg'' shared_world)))
     = [CallGet ''image-auth:images/photo.jpg''] \<and>
   status (fst (HandleImage mockService \<lparr>unixNano = 1762041600000000001, zoneOffset = 0\<rparr>
     (''/'' @ pad2 25 @ ''/'' @ pad2 11 @ ''/'' @ pad2 2 @ ''/'' @ ''abc123'' @ ''/'' @
      ''images/photo.jpg'') shared_world)) = 403"
proof -
  let ?url = "''/25/11/02/wrong-secret/images/photo.jpg''"
  let ?exact = "\<lparr>unixNano = 1762041600000000000, zoneOffset = 0\<rparr>"
  have hyps: "\<not> HasPrefix ?url ''/api/'' \<and> ?url \<noteq> ''/health'' \<and> ?url \<noteq> ''/ready'' \<and>
      parseSharePath ?url = Some (''25-11-02'', ''wrong-secret'', ''images/photo.jpg'') \<and>
      parseDate ''25-11-02'' = Inr ?exact"
    by code_simp
  have refused: "ValidateShare mockService ''images/photo.jpg'' ''wrong-secret'' shared_world
      = (Some ErrUnauthorized, shared_world, [CallGet ''image-auth:images/photo.jpg''])"
    using shared_world_Get(1)
    by (simp add: ValidateShare_def photo_path_valid generateCacheKey_def)
  note inst = HandleImage_expiry [where urlPath = ?url and dateStr = "''25-11-02''"
      and secret = "''wrong-secret''" and s3Path = "''images/photo.jpg''" and expiresAt = ?exact
      and h = mockService and w = shared_world and yy = 25 and Y = 2025 and m = 11 and d = 2
      and sec = "''abc123''" and p = "''images/photo.jpg''" and h' = mockService
      and w' = shared_world
      and now' = "\<lparr>unixNano = 1762041600000000001, zoneOffset = 0\<rparr>"]
  from inst [where now = ?exact] hyps refused
  have at_expiry: "HandleImage mockService ?exact ?url shared_world
      = (writeError ''unauthorized'' 401, shared_world, [CallGet ''image-auth:images/photo.jpg''])"
    by simp
  from inst [where now = ?exact] hyps photo_path_valid
  have first_call: "take 1 (snd (snd (HandleImage mockService ?exact ?url shared_world)))
      = [CallGet ''image-auth:images/photo.jpg'']"
    by (simp add: generateCacheKey_def)
  from inst [where now = "\<lparr>unixNano = 1762041601000000000, zoneOffset = 0\<rparr>"] hyps
  have later: "HandleImage mockService \<lparr>unixNano = 1762041601000000000, zoneOffset = 0\<rparr>
      ?url shared_world = (writeError ''link expired'' 403, shared_world, [])"
    by simp
  have wf: "(0::int) \<le> 25 \<and> (25::int) < 100 \<and>
      (2025::int) = (if 69 \<le> (25::int) then 25 + 1900 else 25 + 2000) \<and>
      (1::int) \<le> 11 \<and> (11::int) \<le> 12 \<and> (1::int) \<le> 2 \<and> (2::int) \<le> daysIn 11 2025 \<and>
      CHR ''/'' \<notin> set ''abc123'' \<and> ''images/photo.jpg'' \<noteq> [] \<and>
      last ''images/photo.jpg'' \<noteq> CHR ''/''"
    by (simp add: daysIn_def)
  have past: "days_from_civil \<lparr>year = 2025, month = 11, day = 2\<rparr> * 86400 * 1000000000
      < unixNano \<lparr>unixNano = 1762041600000000001, zoneOffset = 0\<rparr>"
    by (simp add: days_from_civil_def)
  from inst [where now = ?exact] wf past
  have dated: "status (fst (HandleImage mockService
      \<lparr>unixNano = 1762041600000000001, zoneOffset = 0\<rparr>
      (''/'' @ pad2 25 @ ''/'' @ pad2 11 @ ''/'' @ pad2 2 @ ''/'' @ ''abc123'' @ ''/'' @
       ''images/photo.jpg'') shared_world)) = 403"
    by blast
  from at_expiry later first_call dated show ?thesis
    by blast
qed

section \<open>Failures of the object store while serving\<close>

text \<open>Every failure of \<open>GetObject\<close> is answered alike.\<close>

lemma HandleImage_GetObject_failure:
  assumes "\<not> HasPrefix urlPath ''/api/''" "urlPath \<noteq> ''/health''" "urlPath \<noteq> ''/ready''"
    and "parseSharePath urlPath = Some (dateStr, secret, s3Path)"
    and "parseDate dateStr = Inr expiresAt"
    and "\<not> After now expiresAt"
    and "ValidateShare h s3Path secret w = (None, w1, c1)"
    and "GetObject h s3Path w1 = (Inl err, w2, c2)"
  shows "HandleImage h now urlPath w = (writeError ''not found'' 404, w2, c1 @ c2)"
  using assms by (simp add: HandleImage_def serveShare_def)

text \<open>
  C8, at the request \<open>GET /25/11/02/abc123/images/photo.jpg\<close>, before its expiry and with
  the stored secret, while the object store is unreachable: \<open>GetObject\<close> of the service
  fails with the wrapped backend error and the handler answers 404 "not found", not 500.
  The same handler answers the same request with 500 when it is the cache that is
  unreachable.
\<close>

theorem HandleImage_backend_failure_status:
  "fst (GetObject (mockService\<lparr>storage := failingStorageService\<rparr>) ''images/photo.jpg''
         shared_world)
     = Inl (Errorf ''failed to get object''
         (Errorf ''failed to get object from S3'' (ErrorString ''connection reset''))) \<and>
   fst (HandleImage (mockService\<lparr>storage := failingStorageService\<rparr>) sample_now
         ''/25/11/02/abc123/images/photo.jpg'' shared_world)
     = writeError ''not found'' 404 \<and>
   fst (HandleImage (mockService\<lparr>cache := failingCacheService\<rparr>) sample_now
         ''/25/11/02/abc123/images/photo.jpg'' shared_world)
     = writeError ''internal error'' 500"
  by code_simp

section \<open>The cache key\<close>

lemma CreateShare_calls:
  "isValidS3Path p \<Longrightarrow>
   snd (snd (CreateShare s now \<lparr>req_S3Path = p, req_Secret = secret, req_ExpiresAt = e\<rparr> w))
     = [CallHeadObject p] \<or>
   snd (snd (CreateShare s now \<lparr>req_S3Path = p, req_Secret = secret, req_ExpiresAt = e\<rparr> w))
     = [CallHeadObject p, CallSet (generateCacheKey p) secret (Until now e)]"
  by (auto simp: CreateShare_def Let_def split: prod.splits sum.splits option.splits)

lemma CreateShare_success_calls:
  "CreateShare s now \<lparr>req_S3Path = p, req_Secret = secret, req_ExpiresAt = e\<rparr> w
     = (Inr r, w', c) \<Longrightarrow>
   c = [CallHeadObject p, CallSet (generateCacheKey p) secret (Until now e)]"
  by (auto simp: CreateShare_def Let_def split: prod.splits sum.splits option.splits if_splits)

lemma ValidateShare_calls:
  "isValidS3Path p \<Longrightarrow> snd (snd (ValidateShare s p secret w)) = [CallGet (generateCacheKey p)]"
  by (auto simp: ValidateShare_def Let_def split: prod.splits sum.splits)

text \<open>
  C9: the cache key of a path is \<open>image-auth:\<close> followed by the path as given, not by
  its cleaned form; for every path that passes validation, that is the key of the one
  \<open>Get\<close> of \<open>ValidateShare\<close> and of the \<open>Set\<close> of \<open>CreateShare\<close> (made whenever the
  call gets as far as the cache, and in every success); distinct paths have distinct keys. So \<open>a//b\<close> and \<open>a/b\<close>, and \<open>./a\<close> and \<open>a\<close>, which pass validation
  and clean to the same path, have distinct keys, and on the in-memory cache each spelling
  holds its own secret.
\<close>

theorem cache_key_uncanonicalized:
  "generateCacheKey p = ''image-auth:'' @ p \<and>
   (isValidS3Path p \<longrightarrow>
      snd (snd (ValidateShare s p presented w)) = [CallGet (''image-auth:'' @ p)] \<and>
      (snd (snd (CreateShare s now \<lparr>req_S3Path = p, req_Secret = secret, req_ExpiresAt = e\<rparr> w))
         = [CallHeadObject p] \<or>
       snd (snd (CreateShare s now \<lparr>req_S3Path = p, req_Secret = secret, req_ExpiresAt = e\<rparr> w))
         = [CallHeadObject p, CallSet (''image-auth:'' @ p) secret (Until now e)])) \<and>
   (\<forall>r w' c.
      CreateShare s now \<lparr>req_S3Path = p, req_Secret = secret, req_ExpiresAt = e\<rparr> w
        = (Inr r, w', c) \<longrightarrow>
      c = [CallHeadObject p, CallSet (''image-auth:'' @ p) secret (Until now e)]) \<and>
   ((generateCacheKey p = generateCacheKey q) = (p = q)) \<and>
   isValidS3Path ''a//b'' \<and> isValidS3Path ''a/b'' \<and> Clean ''a//b'' = Clean ''a/b'' \<and>
   generateCacheKey ''a//b'' \<noteq> generateCacheKey ''a/b'' \<and>
   isValidS3Path ''./a'' \<and> isValidS3Path ''a'' \<and> Clean ''./a'' = Clean ''a'' \<and>
   generateCacheKey ''./a'' \<noteq> generateCacheKey ''a'' \<and>
   fst (ValidateShare mockService ''a//b'' ''s1'' twin_shared) = None \<and>
   fst (ValidateShare mockService ''a/b'' ''s2'' twin_shared) = None \<and>
   fst (ValidateShare mockService ''a//b'' ''s2'' twin_shared) = Some ErrUnauthorized \<and>
   fst (ValidateShare mockService ''a/b'' ''s1'' twin_shared) = Some ErrUnauthorized"
proof -
  have key: "generateCacheKey p = ''image-auth:'' @ p" for p
    by (simp add: generateCacheKey_def)
  have inj: "(generateCacheKey p = generateCacheKey q) = (p = q)"
    by (simp add: generateCacheKey_def)
  have calls: "snd (snd (ValidateShare s p presented w)) = [CallGet (''image-auth:'' @ p)] \<and>
      (snd (snd (CreateShare s now \<lparr>req_S3Path = p, req_Secret = secret, req_ExpiresAt = e\<rparr> w))
         = [CallHeadObject p] \<or>
       snd (snd (CreateShare s now \<lparr>req_S3Path = p, req_Secret = secret, req_ExpiresAt = e\<rparr> w))
         = [CallHeadObject p, CallSet (''image-auth:'' @ p) secret (Until now e)])"
    if "isValidS3Path p"
    using ValidateShare_calls [OF that, of s presented w]
      CreateShare_calls [OF that, of s now secret e w]
    by (simp add: key)
  have stored: "c = [CallHeadObject p, CallSet (''image-auth:'' @ p) secret (Until now e)]"
    if "CreateShare s now \<lparr>req_S3Path = p, req_Secret = secret, req_ExpiresAt = e\<rparr> w
          = (Inr r, w', c)" for r w' c
    using CreateShare_success_calls [OF that] by (simp add: key)
  from key [of p] inj calls stored twin_spellings twin_secrets show ?thesis
    by blast
qed

theorem cache_key_uncanonicalized_witness:
  "isValidS3Path ''a//b'' \<and>
   snd (snd (ValidateShare mockService ''a//b'' ''s1'' twin_shared)) = [CallGet ''image-auth:a//b'']"
proof -
  have valid: "isValidS3Path ''a//b''"
    by code_simp
  from cache_key_uncanonicalized [of "''a//b''" mockService "''s1''" twin_shared]
    valid
  show ?thesis by simp
qed

section \<open>Validation: the adapter calls\<close>

text \<open>
  C10: \<open>ValidateShare\<close> never calls \<open>Set\<close> or \<open>Delete\<close>, nor the object store. For an
  unsafe path it makes no call and leaves the backend as it was; for a safe path, on every
  outcome, its calls are exactly one \<open>Get\<close> of the key of the path, and the backend
  afterwards is the one that this \<open>Get\<close> leaves: unchanged when \<open>Get\<close> only reads.
\<close>

theorem ValidateShare_frame:
  "(\<not> isValidS3Path p \<longrightarrow> ValidateShare s p secret w = (Some ErrInvalidPath, w, [])) \<and>
   (isValidS3Path p \<longrightarrow>
      snd (snd (ValidateShare s p secret w)) = [CallGet (generateCacheKey p)] \<and>
      fst (snd (ValidateShare s p secret w)) = snd (cache_Get (cache s) (generateCacheKey p) w)) \<and>
   (snd (cache_Get (cache s) (generateCacheKey p) w) = w \<longrightarrow>
      fst (snd (ValidateShare s p secret w)) = w)"
  by (auto simp: ValidateShare_def Let_def split: prod.splits sum.splits)

theorem ValidateShare_frame_witness:
  "ValidateShare mockService ''../etc/passwd'' ''test-secret'' shared_world
     = (Some ErrInvalidPath, shared_world, []) \<and>
   snd (snd (ValidateShare mockService ''images/photo.jpg'' ''abc123'' shared_world))
     = [CallGet ''image-auth:images/photo.jpg''] \<and>
   fst (snd (ValidateShare mockService ''images/photo.jpg'' ''abc123'' shared_world))
     = shared_world"
proof -
  from ValidateShare_frame [of "''../etc/passwd''" mockService "''test-secret''" shared_world]
    passwd_path_invalid
  have one: "ValidateShare mockService ''../etc/passwd'' ''test-secret'' shared_world
     = (Some ErrInvalidPath, shared_world, [])"
    by blast
  from ValidateShare_frame [of "''images/photo.jpg''" mockService "''abc123''" shared_world]
    photo_path_valid shared_world_Get(1)
  have two: "snd (snd (ValidateShare mockService ''images/photo.jpg'' ''abc123'' shared_world))
     = [CallGet ''image-auth:images/photo.jpg''] \<and>
   fst (snd (ValidateShare mockService ''images/photo.jpg'' ''abc123'' shared_world))
     = shared_world"
    by (simp add: generateCacheKey_def)
  from one two show ?thesis by simp
qed

end
